theory Spec2Isabelle
  imports Main
begin

section \<open>Service-lifecycle scheduling of autoCRM\<close>

text \<open>
  The repository computes the schedule of service touchpoints of a purchased product in
  two places: the PL/pgSQL trigger function \<^verbatim>\<open>generate_scheduled_service_tasks\<close>
  (migration SPEC-004), which inserts rows of \<^verbatim>\<open>scheduled_service_tasks\<close>, and the
  function \<^verbatim>\<open>generateTimelineNodes\<close> of the React component
  \<^verbatim>\<open>ServiceFlowTimeline\<close>, which builds the preview shown in the transaction form.
  Both are embedded below as they are written, next to the trigger functions that
  capture the snapshot of a product at its purchase (\<^verbatim>\<open>auto_create_customer_product\<close>
  of migration SPEC-004 and \<^verbatim>\<open>auto_create_customer_product_v2\<close> of migration
  SPEC-005) and the one that numbers a transaction (\<^verbatim>\<open>generate_transaction_number\<close>).
\<close>

subsection \<open>Calendar dates\<close>

text \<open>
  A date is the number of its day, counted from 1970-01-01 in the proleptic Gregorian
  calendar. This is what both platforms hold: a PostgreSQL \<^verbatim>\<open>DATE\<close> is a day count,
  and \<^verbatim>\<open>DATE + INT\<close> adds days; an ECMAScript \<^verbatim>\<open>Date\<close> is a time value whose local
  calendar day is read by \<^verbatim>\<open>getMonth\<close> and written by \<^verbatim>\<open>setMonth\<close>. The time
  of day of a \<^verbatim>\<open>Date\<close> is carried along unchanged by \<^verbatim>\<open>setMonth\<close> and is not printed
  by \<^verbatim>\<open>formatDate\<close>, so it is left out; the \<^verbatim>\<open>Date\<close> is taken to be a valid one
  whose results stay inside the ECMAScript time range (100 million days around 1970).

  \<open>days_from_civil\<close> and \<open>civil_from_days\<close> are the two conversions between a day
  number and year, month (1 to 12) and day of month, in integer arithmetic.
\<close>

type_synonym date = int

definition days_from_civil :: "int \<Rightarrow> int \<Rightarrow> int \<Rightarrow> date" where
  "days_from_civil y m d =
     (let y' = (if m \<le> 2 then y - 1 else y);
          era = y' div 400;
          yoe = y' - era * 400;
          doy = (153 * (if m > 2 then m - 3 else m + 9) + 2) div 5 + d - 1;
          doe = yoe * 365 + yoe div 4 - yoe div 100 + doy
      in era * 146097 + doe - 719468)"

definition civil_from_days :: "date \<Rightarrow> int \<times> int \<times> int" where
  "civil_from_days z =
     (let z' = z + 719468;
          era = z' div 146097;
          doe = z' - era * 146097;
          yoe = (doe - doe div 1460 + doe div 36524 - doe div 146096) div 365;
          doy = doe - (365 * yoe + yoe div 4 - yoe div 100);
          mp = (5 * doy + 2) div 153;
          d = doy - (153 * mp + 2) div 5 + 1;
          m = (if mp < 10 then mp + 3 else mp - 9);
          y = yoe + era * 400
      in (if m \<le> 2 then y + 1 else y, m, d))"

text \<open>
  \<^verbatim>\<open>date.setMonth(date.getMonth() + n)\<close>: ECMAScript's \<^verbatim>\<open>MakeDay(year, month, date)\<close>
  carries whole years out of the month index, finds the first day of that month and
  adds \<^verbatim>\<open>date - 1\<close> days, so a day of month the target month does not have runs over
  into the next month. \<^verbatim>\<open>getMonth\<close> counts months from 0.
\<close>

definition getMonth :: "date \<Rightarrow> int" where
  "getMonth t = (case civil_from_days t of (y, m, d) \<Rightarrow> m - 1)"

definition setMonth :: "date \<Rightarrow> int \<Rightarrow> date" where
  "setMonth t mon =
     (case civil_from_days t of (y, m, d) \<Rightarrow>
        days_from_civil (y + mon div 12) (mon mod 12 + 1) 1 + d - 1)"

subsection \<open>Text\<close>

text \<open>
  Strings are byte lists. The Thai default labels of the preview are written as their
  UTF-8 bytes.
\<close>

fun nat_text :: "nat \<Rightarrow> string" where
  "nat_text n =
     (if n < 10 then [''0123456789'' ! n]
      else nat_text (n div 10) @ [''0123456789'' ! (n mod 10)])"

declare nat_text.simps [simp del]

definition int_text :: "int \<Rightarrow> string" where
  "int_text i = (if i < 0 then CHR ''-'' # nat_text (nat (- i)) else nat_text (nat i))"

text \<open>\<^verbatim>\<open>LPAD(s, n, '0')\<close> of PostgreSQL: pads on the left, and cuts a longer string to
  its first \<open>n\<close> characters.\<close>

definition LPAD :: "string \<Rightarrow> nat \<Rightarrow> char \<Rightarrow> string" where
  "LPAD s n c = (if length s \<ge> n then take n s else replicate (n - length s) c @ s)"

text \<open>A rendering of a date as \<^verbatim>\<open>YYYY-MM-DD\<close>, used where a closed example needs some
  concrete rendering in the place of the locale's.\<close>

definition iso_date :: "date \<Rightarrow> string" where
  "iso_date t =
     (case civil_from_days t of (y, m, d) \<Rightarrow>
        int_text y @ ''-'' @ LPAD (int_text m) 2 (CHR ''0'') @ ''-'' @ LPAD (int_text d) 2 (CHR ''0''))"

subsection \<open>The service flow configuration\<close>

text \<open>
  The JSON value of \<^verbatim>\<open>products.service_flow_config\<close> has the shape
  \<^verbatim>\<open>{onboarding: {enabled, task_name, message_template_id},
    retention: {enabled, reminder_days_before, message_template_id},
    maturity: {enabled, task_name, message_template_id}}\<close>
  (the column default of migration SPEC-004). Every member may be absent or null, which
  is \<open>None\<close>. \<^verbatim>\<open>enabled\<close> is a JSON boolean, as the client's type has it and the
  switches of the product form write it. \<^verbatim>\<open>message_template_id\<close> is a JSON string: any
  text, which need not be a UUID nor name a template that still exists.
\<close>

type_synonym uuid = string

datatype phase = onboarding_phase | retention_phase | maturity_phase

record PhaseConfig =
  enabled :: "bool option"
  task_name :: "string option"
  reminder_days_before :: "int option"
  message_template_id :: "string option"

record ServiceFlowConfig =
  onboarding :: "PhaseConfig option"
  retention :: "PhaseConfig option"
  maturity :: "PhaseConfig option"

text \<open>The columns of \<^verbatim>\<open>products\<close> that the scheduling code reads; the client's
  \<^verbatim>\<open>Product\<close> object carries the same members. The two month counts are \<^verbatim>\<open>INT\<close>
  columns; in the client they are JavaScript numbers with integer values, on which
  the comparisons and additions of \<^verbatim>\<open>generateTimelineNodes\<close> are exact.\<close>

record Product =
  product_type :: "string option"
  lifecycle_months :: "int option"
  service_interval_months :: "int option"
  service_flow_config :: "ServiceFlowConfig option"
  usage_duration_days :: "int option"

subsection \<open>The client-side preview: \<^verbatim>\<open>generateTimelineNodes\<close>\<close>

record FlowPreviewNode =
  month :: int
  date :: string
  phase :: phase
  action :: string
  customMessage :: "string option"

datatype js_error = TypeError

text \<open>\<^verbatim>\<open>x.member\<close> on an \<^verbatim>\<open>undefined\<close> or \<^verbatim>\<open>null\<close> \<open>x\<close> throws a TypeError.\<close>

definition deref :: "'a option \<Rightarrow> js_error + 'a" where
  "deref x = (case x of None \<Rightarrow> Inl TypeError | Some v \<Rightarrow> Inr v)"

text \<open>\<^verbatim>\<open>service_flow_config?.onboarding?.enabled\<close> as a condition: optional chaining
  gives \<^verbatim>\<open>undefined\<close>, which is falsy, when a link is missing.\<close>

definition chain_enabled ::
  "ServiceFlowConfig option \<Rightarrow> (ServiceFlowConfig \<Rightarrow> PhaseConfig option) \<Rightarrow> bool" where
  "chain_enabled cfg sel =
     (case cfg of None \<Rightarrow> False
      | Some c \<Rightarrow> (case sel c of None \<Rightarrow> False | Some p \<Rightarrow> enabled p = Some True))"

text \<open>\<^verbatim>\<open>s || dflt\<close> on a string that may be missing: the empty string is falsy too.\<close>

definition or_default :: "string option \<Rightarrow> string \<Rightarrow> string" where
  "or_default s dflt = (case s of None \<Rightarrow> dflt | Some v \<Rightarrow> if v = [] then dflt else v)"

text \<open>The default labels of the three phases (lines 30, 45 and 60 of the component),
  Thai for "install", "clean/maintain" and "renew MA".\<close>

definition label_install :: string where
  "label_install =
     [CHR 0xE0, CHR 0xB8, CHR 0x95, CHR 0xE0, CHR 0xB8, CHR 0xB4, CHR 0xE0, CHR 0xB8, CHR 0x94,
      CHR 0xE0, CHR 0xB8, CHR 0x95, CHR 0xE0, CHR 0xB8, CHR 0xB1, CHR 0xE0, CHR 0xB9, CHR 0x89,
      CHR 0xE0, CHR 0xB8, CHR 0x87]"

definition label_clean :: string where
  "label_clean =
     [CHR 0xE0, CHR 0xB8, CHR 0xA5, CHR 0xE0, CHR 0xB9, CHR 0x89, CHR 0xE0, CHR 0xB8, CHR 0xB2,
      CHR 0xE0, CHR 0xB8, CHR 0x87, CHR 0x2F, CHR 0xE0, CHR 0xB8, CHR 0x9A, CHR 0xE0, CHR 0xB8,
      CHR 0xB3, CHR 0xE0, CHR 0xB8, CHR 0xA3, CHR 0xE0, CHR 0xB8, CHR 0xB8, CHR 0xE0, CHR 0xB8,
      CHR 0x87]"

definition label_renew :: string where
  "label_renew =
     [CHR 0xE0, CHR 0xB8, CHR 0x95, CHR 0xE0, CHR 0xB9, CHR 0x88, CHR 0xE0, CHR 0xB8, CHR 0xAD,
      CHR 0x20, CHR 0x4D, CHR 0x41]"

text \<open>
  \<^verbatim>\<open>formatDate\<close> prints a \<^verbatim>\<open>Date\<close> with \<^verbatim>\<open>toLocaleDateString('th-TH', ...)\<close>; the
  rendering belongs to the platform's locale data and is a parameter here.

  The three blocks of \<^verbatim>\<open>generateTimelineNodes\<close> each push onto \<^verbatim>\<open>nodes\<close>. The
  \<^verbatim>\<open>while\<close> loop of the retention block has no bound of its own, so it is a partial
  function: \<open>None\<close> is a loop that does not return.
\<close>

definition onboarding_block ::
  "(date \<Rightarrow> string) \<Rightarrow> Product \<Rightarrow> date \<Rightarrow> FlowPreviewNode list \<Rightarrow> js_error + FlowPreviewNode list" where
  "onboarding_block formatDate product serviceStartDate nodes =
     (if chain_enabled (service_flow_config product) onboarding then
        (case deref (service_flow_config product) of Inl e \<Rightarrow> Inl e
         | Inr cfg \<Rightarrow>
        (case deref (onboarding cfg) of Inl e \<Rightarrow> Inl e
         | Inr ob \<Rightarrow>
            Inr (nodes @ [\<lparr>month = 0, date = formatDate serviceStartDate,
                           phase = onboarding_phase,
                           action = or_default (task_name ob) label_install,
                           customMessage = None\<rparr>])))
      else Inr nodes)"

partial_function (option) retention_loop ::
  "(date \<Rightarrow> string) \<Rightarrow> date \<Rightarrow> int \<Rightarrow> int \<Rightarrow> int \<Rightarrow> FlowPreviewNode list \<Rightarrow>
   FlowPreviewNode list option" where
  "retention_loop formatDate serviceStartDate interval lifecycle currentMonth nodes =
     (if currentMonth < lifecycle then
        retention_loop formatDate serviceStartDate interval lifecycle (currentMonth + interval)
          (nodes @ [\<lparr>month = currentMonth,
                     date = formatDate (setMonth serviceStartDate
                                          (getMonth serviceStartDate + currentMonth)),
                     phase = retention_phase,
                     action = label_clean,
                     customMessage = None\<rparr>])
      else Some nodes)"

definition retention_block ::
  "(date \<Rightarrow> string) \<Rightarrow> Product \<Rightarrow> int \<Rightarrow> date \<Rightarrow> FlowPreviewNode list \<Rightarrow> FlowPreviewNode list option" where
  "retention_block formatDate product lifecycle serviceStartDate nodes =
     (if chain_enabled (service_flow_config product) retention then
        (case service_interval_months product of
           None \<Rightarrow> Some nodes
         | Some interval \<Rightarrow>
             if interval > 0
             then retention_loop formatDate serviceStartDate interval lifecycle interval nodes
             else Some nodes)
      else Some nodes)"

definition maturity_block ::
  "(date \<Rightarrow> string) \<Rightarrow> Product \<Rightarrow> int \<Rightarrow> date \<Rightarrow> FlowPreviewNode list \<Rightarrow> js_error + FlowPreviewNode list" where
  "maturity_block formatDate product lifecycle serviceStartDate nodes =
     (if chain_enabled (service_flow_config product) maturity then
        (case deref (service_flow_config product) of Inl e \<Rightarrow> Inl e
         | Inr cfg \<Rightarrow>
        (case deref (maturity cfg) of Inl e \<Rightarrow> Inl e
         | Inr mt \<Rightarrow>
            Inr (nodes @ [\<lparr>month = lifecycle,
                           date = formatDate (setMonth serviceStartDate
                                                (getMonth serviceStartDate + lifecycle)),
                           phase = maturity_phase,
                           action = or_default (task_name mt) label_renew,
                           customMessage = None\<rparr>])))
      else Inr nodes)"

text \<open>The result is \<open>None\<close> when the loop does not return, \<open>Some (Inl e)\<close> when an
  exception is thrown and \<open>Some (Inr nodes)\<close> when \<open>nodes\<close> is returned.
  \<^verbatim>\<open>!lifecycle_months || lifecycle_months <= 0\<close> holds for a missing value, for 0 and for
  a negative one.\<close>

definition generateTimelineNodes ::
  "(date \<Rightarrow> string) \<Rightarrow> Product \<Rightarrow> date \<Rightarrow> (js_error + FlowPreviewNode list) option" where
  "generateTimelineNodes formatDate product serviceStartDate =
     (case lifecycle_months product of
        None \<Rightarrow> Some (Inr [])
      | Some lifecycle \<Rightarrow>
          if lifecycle = 0 \<or> lifecycle \<le> 0 then Some (Inr [])
          else
            (case onboarding_block formatDate product serviceStartDate [] of
               Inl e \<Rightarrow> Some (Inl e)
             | Inr nodes1 \<Rightarrow>
                 (case retention_block formatDate product lifecycle serviceStartDate nodes1 of
                    None \<Rightarrow> None
                  | Some nodes2 \<Rightarrow>
                      Some (maturity_block formatDate product lifecycle serviceStartDate nodes2))))"

subsection \<open>PostgreSQL values: integers, dates, errors, text\<close>

text \<open>
  An \<^verbatim>\<open>INT\<close> is a 32-bit integer whose arithmetic raises \<^verbatim>\<open>integer out of range\<close>
  instead of wrapping. A \<^verbatim>\<open>DATE\<close> lies between 4714-11-24 BC (day -2440588 from
  1970-01-01) and 5874897-12-31 AD (day 2145042905), and \<^verbatim>\<open>DATE + INT\<close> raises
  \<^verbatim>\<open>date out of range\<close> beyond. A cast \<^verbatim>\<open>::uuid\<close> of a text that is no UUID raises
  \<^verbatim>\<open>invalid input syntax for type uuid\<close>, and an insert whose reference names no row
  violates the foreign key. An error aborts the statement that fired the trigger.
\<close>

datatype sql_error =
    integer_out_of_range | date_out_of_range | invalid_text_representation
  | foreign_key_violation

definition int4_range :: "int \<Rightarrow> bool" where
  "int4_range x = (- 2147483648 \<le> x \<and> x \<le> 2147483647)"

definition int4mul :: "int \<Rightarrow> int \<Rightarrow> sql_error + int" where
  "int4mul a b = (if int4_range (a * b) then Inr (a * b) else Inl integer_out_of_range)"

definition int4pl :: "int \<Rightarrow> int \<Rightarrow> sql_error + int" where
  "int4pl a b = (if int4_range (a + b) then Inr (a + b) else Inl integer_out_of_range)"

definition date_range :: "date \<Rightarrow> bool" where
  "date_range d = (- 2440588 \<le> d \<and> d < 2145042906)"

definition date_pli :: "date \<Rightarrow> int \<Rightarrow> sql_error + date" where
  "date_pli d n = (if date_range (d + n) then Inr (d + n) else Inl date_out_of_range)"

text \<open>
  The text of a UUID, as the cast \<^verbatim>\<open>::uuid\<close> reads it: an optional opening brace,
  sixteen bytes of two hexadecimal digits each, an optional hyphen after every second
  byte but the last, the closing brace when there was an opening one, and nothing more.
  The value is held in the form in which PostgreSQL prints it, in lower case with the
  hyphens after the bytes 4, 6, 8 and 10.
\<close>

definition isxdigit :: "char \<Rightarrow> bool" where
  "isxdigit c = (c \<in> set ''0123456789abcdefABCDEF'')"

definition tolower_hex :: "char \<Rightarrow> char" where
  "tolower_hex c = (if c \<in> set ''ABCDEF'' then char_of ((of_char c :: nat) + 32) else c)"

function uuid_bytes :: "nat \<Rightarrow> string \<Rightarrow> (string \<times> string) option" where
  "uuid_bytes i src =
     (if 16 \<le> i then Some ([], src)
      else
        (case src of
           a # b # rest \<Rightarrow>
             if isxdigit a \<and> isxdigit b then
               (case uuid_bytes (Suc i)
                       (case rest of
                          [] \<Rightarrow> rest
                        | c # rest' \<Rightarrow>
                            if c = CHR ''-'' \<and> i mod 2 = 1 \<and> i < 15 then rest' else rest) of
                  None \<Rightarrow> None
                | Some (digits, tail) \<Rightarrow> Some (tolower_hex a # tolower_hex b # digits, tail))
             else None
         | _ \<Rightarrow> None))"
  by pat_completeness auto
termination
  by (relation "measure (\<lambda>(i, src). 16 - i)") auto

declare uuid_bytes.simps [simp del]

definition uuid_out :: "string \<Rightarrow> string" where
  "uuid_out digits =
     take 8 digits @ ''-'' @ take 4 (drop 8 digits) @ ''-'' @ take 4 (drop 12 digits) @ ''-''
       @ take 4 (drop 16 digits) @ ''-'' @ drop 20 digits"

definition uuid_in :: "string \<Rightarrow> sql_error + string" where
  "uuid_in source =
     (case source of
        [] \<Rightarrow> Inl invalid_text_representation
      | c # src \<Rightarrow>
          if c = CHR 0x7B then
            (case uuid_bytes 0 src of
               None \<Rightarrow> Inl invalid_text_representation
             | Some (digits, tail) \<Rightarrow>
                 if tail = [CHR 0x7D] then Inr (uuid_out digits)
                 else Inl invalid_text_representation)
          else
            (case uuid_bytes 0 source of
               None \<Rightarrow> Inl invalid_text_representation
             | Some (digits, tail) \<Rightarrow>
                 if tail = [] then Inr (uuid_out digits) else Inl invalid_text_representation))"

text \<open>\<^verbatim>\<open>UPPER\<close> on the letters a to z, and \<^verbatim>\<open>LEFT(s, n)\<close> for \<open>n \<ge> 0\<close>.\<close>

definition UPPER :: "string \<Rightarrow> string" where
  "UPPER s =
     map (\<lambda>c. if 97 \<le> (of_char c :: nat) \<and> (of_char c :: nat) \<le> 122
              then char_of ((of_char c :: nat) - 32) else c) s"

definition LEFT :: "string \<Rightarrow> nat \<Rightarrow> string" where
  "LEFT s n = take n s"

text \<open>\<^verbatim>\<open>s LIKE pattern\<close>: \<^verbatim>\<open>%\<close> matches any run of characters, \<^verbatim>\<open>_\<close> any one
  character, and a backslash makes the next pattern character literal. PostgreSQL
  rejects a pattern that ends in a lone backslash; here that case matches nothing, and
  it does not arise, since every pattern of this program ends in \<^verbatim>\<open>%\<close>.\<close>

fun LIKE :: "string \<Rightarrow> string \<Rightarrow> bool" where
  "LIKE [] [] = True"
| "LIKE (c # s) [] = False"
| "LIKE [] (p # ps) = (p = CHR ''%'' \<and> LIKE [] ps)"
| "LIKE (c # s) (p # ps) =
     (if p = CHR ''%'' then LIKE (c # s) ps \<or> LIKE s (p # ps)
      else if p = CHR ''_'' then LIKE s ps
      else if p = CHR 0x5C then (case ps of [] \<Rightarrow> False | q # qs \<Rightarrow> c = q \<and> LIKE s qs)
      else c = p \<and> LIKE s ps)"

text \<open>\<^verbatim>\<open>TO_CHAR(NOW(), 'YYYYMM')\<close> for the year and month of the current time: the year
  in at least four digits, the month in two.\<close>

definition zero_pad :: "nat \<Rightarrow> string \<Rightarrow> string" where
  "zero_pad n s = replicate (n - length s) (CHR ''0'') @ s"

definition TO_CHAR_YYYYMM :: "nat \<times> nat \<Rightarrow> string" where
  "TO_CHAR_YYYYMM now = (case now of (y, m) \<Rightarrow> zero_pad 4 (nat_text y) @ zero_pad 2 (nat_text m))"

subsection \<open>Tables\<close>

text \<open>
  The rows hold the columns that the trigger functions read or write. Columns filled by
  a default that the functions never read (\<^verbatim>\<open>scheduled_service_tasks.id\<close>,
  \<^verbatim>\<open>created_at\<close>, \<^verbatim>\<open>executed_at\<close>) are left out. A column name that several tables
  share carries the initials of its table (\<open>t_\<close>, \<open>ti_\<close>, \<open>cp_\<close>, \<open>sst_\<close>, \<open>mt_\<close>).
  A nullable column is an \<open>option\<close>; the key columns, \<^verbatim>\<open>transactions.customer_id\<close> and
  the three dates of \<^verbatim>\<open>customer_products\<close>, which both capture functions always set, are
  taken as not null. A \<^verbatim>\<open>UUID\<close> is held as the text that PostgreSQL prints for it. \<^verbatim>\<open>message_templates.type\<close> and
  \<^verbatim>\<open>scheduled_service_tasks.phase\<close> are constrained to the three phases.
  \<^verbatim>\<open>products\<close> is keyed by its \<^verbatim>\<open>id\<close>, and \<^verbatim>\<open>customers\<close> is the list of the
  \<^verbatim>\<open>id\<close>s of its rows, which is all that the triggers need of it.
\<close>

record transactions_row =
  t_id :: uuid
  customer_id :: uuid
  transaction_no :: "string option"

record transaction_items_row =
  ti_id :: uuid
  ti_transaction_id :: uuid
  ti_product_id :: uuid
  ti_quantity :: int
  service_start_date :: "date option"

record customer_products_row =
  cp_id :: uuid
  cp_customer_id :: "uuid option"
  cp_product_id :: uuid
  cp_transaction_id :: uuid
  cp_transaction_item_id :: uuid
  cp_quantity :: int
  installation_date :: date
  warranty_end_date :: date
  next_service_date :: date
  cp_status :: string
  service_flow_config_snapshot :: "ServiceFlowConfig option"
  lifecycle_months_snapshot :: "int option"
  service_interval_months_snapshot :: "int option"

record scheduled_service_tasks_row =
  customer_product_id :: uuid
  sst_customer_id :: "uuid option"
  sst_phase :: phase
  scheduled_date :: date
  sst_task_name :: string
  sst_message_template_id :: "uuid option"
  sst_status :: string

record message_templates_row =
  mt_id :: uuid
  mt_type :: phase
  is_default :: bool

record database =
  products :: "uuid \<rightharpoonup> Product"
  customers :: "uuid list"
  transactions :: "transactions_row list"
  customer_products :: "customer_products_row list"
  scheduled_service_tasks :: "scheduled_service_tasks_row list"
  message_templates :: "message_templates_row list"

subsection \<open>The trigger function \<^verbatim>\<open>generate_scheduled_service_tasks\<close>\<close>

text \<open>\<^verbatim>\<open>SELECT id INTO v FROM message_templates WHERE type = ty AND is_default = true
  LIMIT 1\<close>: the first such row, \<^verbatim>\<open>NULL\<close> when there is none.\<close>

definition default_template :: "database \<Rightarrow> phase \<Rightarrow> uuid option" where
  "default_template db ty =
     map_option mt_id (find (\<lambda>t. mt_type t = ty \<and> is_default t) (message_templates db))"

text \<open>\<^verbatim>\<open>IF (v_config->'onboarding'->>'enabled')::boolean\<close>: a missing member gives
  \<^verbatim>\<open>NULL\<close>, and \<^verbatim>\<open>IF NULL\<close> does not take the branch. The member is a JSON
  boolean, whose text \<^verbatim>\<open>true\<close> or \<^verbatim>\<open>false\<close> the cast reads.\<close>

definition json_enabled :: "PhaseConfig option \<Rightarrow> bool" where
  "json_enabled p = (case p of None \<Rightarrow> False | Some c \<Rightarrow> enabled c = Some True)"

definition COALESCE :: "'a option \<Rightarrow> 'a \<Rightarrow> 'a" where
  "COALESCE x dflt = (case x of None \<Rightarrow> dflt | Some v \<Rightarrow> v)"

definition empty_jsonb :: ServiceFlowConfig where
  "empty_jsonb = \<lparr>onboarding = None, retention = None, maturity = None\<rparr>"

text \<open>
  \<^verbatim>\<open>COALESCE((v_config->'onboarding'->>'message_template_id')::uuid, v_template)\<close>: the
  configured text, when there is one, is cast to a UUID, which fails for a text that is
  none; without a configured text the default template stands in, which may be
  \<^verbatim>\<open>NULL\<close>.
\<close>

definition template_reference :: "PhaseConfig option \<Rightarrow> uuid option \<Rightarrow> sql_error + uuid option" where
  "template_reference p v_template =
     (case Option.bind p message_template_id of
        None \<Rightarrow> Inr v_template
      | Some source \<Rightarrow>
          (case uuid_in source of Inl e \<Rightarrow> Inl e | Inr u \<Rightarrow> Inr (Some u)))"

text \<open>
  \<^verbatim>\<open>INSERT INTO scheduled_service_tasks\<close>: the table declares
  \<^verbatim>\<open>customer_product_id UUID REFERENCES customer_products(id)\<close>,
  \<^verbatim>\<open>customer_id UUID REFERENCES customers(id)\<close> and
  \<^verbatim>\<open>message_template_id UUID REFERENCES message_templates(id)\<close>. A reference that is
  \<^verbatim>\<open>NULL\<close> is not checked; one that names no row raises a foreign-key violation.
  The checks of \<^verbatim>\<open>phase\<close> and \<^verbatim>\<open>status\<close> hold for the constants that the function
  inserts, and \<^verbatim>\<open>status\<close> takes its default \<^verbatim>\<open>pending\<close>. The function is declared
  \<^verbatim>\<open>SECURITY DEFINER\<close>: it inserts with the rights of its owner, whatever the role
  of the session.
\<close>

definition references_hold :: "database \<Rightarrow> scheduled_service_tasks_row \<Rightarrow> bool" where
  "references_hold db row =
     (customer_product_id row \<in> cp_id ` set (customer_products db)
      \<and> (case sst_customer_id row of None \<Rightarrow> True | Some c \<Rightarrow> c \<in> set (customers db))
      \<and> (case sst_message_template_id row of
            None \<Rightarrow> True
          | Some t \<Rightarrow> t \<in> mt_id ` set (message_templates db)))"

definition INSERT_INTO_scheduled_service_tasks ::
  "database \<Rightarrow> scheduled_service_tasks_row \<Rightarrow> scheduled_service_tasks_row list \<Rightarrow>
   sql_error + scheduled_service_tasks_row list" where
  "INSERT_INTO_scheduled_service_tasks db row tasks =
     (if references_hold db row then Inr (tasks @ [row]) else Inl foreign_key_violation)"

definition onboarding_task :: "customer_products_row \<Rightarrow> ServiceFlowConfig \<Rightarrow> uuid option \<Rightarrow>
   scheduled_service_tasks_row" where
  "onboarding_task NEW v_config template =
     \<lparr>customer_product_id = cp_id NEW, sst_customer_id = cp_customer_id NEW,
      sst_phase = onboarding_phase, scheduled_date = installation_date NEW,
      sst_task_name = COALESCE (Option.bind (onboarding v_config) task_name) ''Install Product'',
      sst_message_template_id = template, sst_status = ''pending''\<rparr>"

definition retention_task ::
  "customer_products_row \<Rightarrow> int \<Rightarrow> date \<Rightarrow> uuid option \<Rightarrow> scheduled_service_tasks_row" where
  "retention_task NEW v_current_month d template =
     \<lparr>customer_product_id = cp_id NEW, sst_customer_id = cp_customer_id NEW,
      sst_phase = retention_phase, scheduled_date = d,
      sst_task_name = ''Service Reminder - Month '' @ int_text v_current_month,
      sst_message_template_id = template, sst_status = ''pending''\<rparr>"

definition maturity_task ::
  "customer_products_row \<Rightarrow> ServiceFlowConfig \<Rightarrow> date \<Rightarrow> uuid option \<Rightarrow>
   scheduled_service_tasks_row" where
  "maturity_task NEW v_config d template =
     \<lparr>customer_product_id = cp_id NEW, sst_customer_id = cp_customer_id NEW,
      sst_phase = maturity_phase, scheduled_date = d,
      sst_task_name = COALESCE (Option.bind (maturity v_config) task_name) ''Call for MA Renewal'',
      sst_message_template_id = template, sst_status = ''pending''\<rparr>"

text \<open>The onboarding block: the values of the row are computed, then the row is
  inserted.\<close>

definition onboarding_insert ::
  "database \<Rightarrow> customer_products_row \<Rightarrow> ServiceFlowConfig \<Rightarrow> uuid option \<Rightarrow>
   scheduled_service_tasks_row list \<Rightarrow> sql_error + scheduled_service_tasks_row list" where
  "onboarding_insert db NEW v_config v_onboarding_template tasks =
     (if json_enabled (onboarding v_config) then
        (case template_reference (onboarding v_config) v_onboarding_template of
           Inl e \<Rightarrow> Inl e
         | Inr template \<Rightarrow>
             INSERT_INTO_scheduled_service_tasks db (onboarding_task NEW v_config template) tasks)
      else Inr tasks)"

text \<open>The \<^verbatim>\<open>WHILE\<close> loop: each round inserts one row and then advances the month.\<close>

partial_function (option) retention_while ::
  "database \<Rightarrow> customer_products_row \<Rightarrow> ServiceFlowConfig \<Rightarrow> uuid option \<Rightarrow> int \<Rightarrow> int \<Rightarrow>
   int \<Rightarrow> scheduled_service_tasks_row list \<Rightarrow>
   (sql_error + scheduled_service_tasks_row list) option" where
  "retention_while db NEW v_config v_retention_template v_interval v_lifecycle v_current_month
     tasks =
     (if v_current_month < v_lifecycle then
        (case int4mul v_current_month 30 of Inl e \<Rightarrow> Some (Inl e)
         | Inr days \<Rightarrow>
        (case date_pli (installation_date NEW) days of Inl e \<Rightarrow> Some (Inl e)
         | Inr d \<Rightarrow>
        (case template_reference (retention v_config) v_retention_template of
           Inl e \<Rightarrow> Some (Inl e)
         | Inr template \<Rightarrow>
        (case INSERT_INTO_scheduled_service_tasks db
                (retention_task NEW v_current_month d template) tasks of
           Inl e \<Rightarrow> Some (Inl e)
         | Inr tasks' \<Rightarrow>
        (case int4pl v_current_month v_interval of Inl e \<Rightarrow> Some (Inl e)
         | Inr next_month \<Rightarrow>
            retention_while db NEW v_config v_retention_template v_interval v_lifecycle
              next_month tasks')))))
      else Some (Inr tasks))"

definition maturity_insert ::
  "database \<Rightarrow> customer_products_row \<Rightarrow> ServiceFlowConfig \<Rightarrow> uuid option \<Rightarrow> int \<Rightarrow>
   scheduled_service_tasks_row list \<Rightarrow> sql_error + scheduled_service_tasks_row list" where
  "maturity_insert db NEW v_config v_maturity_template v_lifecycle tasks =
     (if json_enabled (maturity v_config) then
        (case int4mul v_lifecycle 30 of Inl e \<Rightarrow> Inl e
         | Inr days \<Rightarrow>
        (case date_pli (installation_date NEW) days of Inl e \<Rightarrow> Inl e
         | Inr d \<Rightarrow>
        (case template_reference (maturity v_config) v_maturity_template of
           Inl e \<Rightarrow> Inl e
         | Inr template \<Rightarrow>
             INSERT_INTO_scheduled_service_tasks db (maturity_task NEW v_config d template) tasks)))
      else Inr tasks)"

text \<open>The function fires after the insert of the row \<open>NEW\<close> into
  \<^verbatim>\<open>customer_products\<close>: \<open>db\<close> is the database with that row. Its result is \<open>None\<close>
  when the loop does not return, \<open>Some (Inl e)\<close> when an error is raised (nothing is
  inserted then), and otherwise the database with the new rows of
  \<^verbatim>\<open>scheduled_service_tasks\<close>.\<close>

definition generate_scheduled_service_tasks ::
  "database \<Rightarrow> customer_products_row \<Rightarrow> (sql_error + database) option" where
  "generate_scheduled_service_tasks db NEW =
     (let v_config = COALESCE (service_flow_config_snapshot NEW) empty_jsonb;
          v_lifecycle = COALESCE (lifecycle_months_snapshot NEW) 0;
          v_interval = COALESCE (service_interval_months_snapshot NEW) 0
      in if v_lifecycle \<le> 0 \<or> v_interval \<le> 0 then Some (Inr db)
         else
           (let v_onboarding_template = default_template db onboarding_phase;
                v_retention_template = default_template db retention_phase;
                v_maturity_template = default_template db maturity_phase
            in (case onboarding_insert db NEW v_config v_onboarding_template
                       (scheduled_service_tasks db) of
                  Inl e \<Rightarrow> Some (Inl e)
                | Inr tasks1 \<Rightarrow>
                (case (if json_enabled (retention v_config)
                       then retention_while db NEW v_config v_retention_template v_interval
                              v_lifecycle v_interval tasks1
                       else Some (Inr tasks1)) of
                   None \<Rightarrow> None
                 | Some (Inl e) \<Rightarrow> Some (Inl e)
                 | Some (Inr tasks2) \<Rightarrow>
                     (case maturity_insert db NEW v_config v_maturity_template v_lifecycle
                             tasks2 of
                        Inl e \<Rightarrow> Some (Inl e)
                      | Inr tasks3 \<Rightarrow> Some (Inr (db\<lparr>scheduled_service_tasks := tasks3\<rparr>)))))))"

subsection \<open>The trigger function \<^verbatim>\<open>auto_create_customer_product\<close> of migration SPEC-004\<close>

text \<open>
  The first variant of the snapshot capture fires after the insert of \<open>NEW\<close> into
  \<^verbatim>\<open>transaction_items\<close>. \<^verbatim>\<open>SELECT * INTO v_product\<close> leaves every field of
  \<^verbatim>\<open>v_product\<close> \<^verbatim>\<open>NULL\<close> when no row matches, so \<^verbatim>\<open>v_product\<close> is an \<open>option\<close> and
  \<^verbatim>\<open>v_product.f\<close> is \<open>Option.bind v_product f\<close>. A comparison with \<^verbatim>\<open>NULL\<close> is
  \<^verbatim>\<open>NULL\<close>, which an \<^verbatim>\<open>IF\<close> treats as false. \<open>CURRENT_DATE\<close> is the date of the
  statement and \<open>new_id\<close> the \<^verbatim>\<open>id\<close> that the new \<^verbatim>\<open>customer_products\<close> row receives.
  The insert into \<^verbatim>\<open>customer_products\<close> fires \<^verbatim>\<open>generate_scheduled_service_tasks\<close>
  (trigger \<^verbatim>\<open>on_customer_product_created_schedule\<close>).
\<close>

definition auto_create_customer_product ::
  "database \<Rightarrow> date \<Rightarrow> uuid \<Rightarrow> transaction_items_row \<Rightarrow> (sql_error + database) option" where
  "auto_create_customer_product db CURRENT_DATE new_id NEW =
     (let v_customer_id =
            map_option customer_id (find (\<lambda>t. t_id t = ti_transaction_id NEW) (transactions db));
          v_product = products db (ti_product_id NEW);
          by_usage = (COALESCE (Option.bind v_product usage_duration_days) 365,
                      COALESCE (Option.bind v_product usage_duration_days) 30)
      in (case (case Option.bind v_product lifecycle_months of
                  None \<Rightarrow> Inr by_usage
                | Some l \<Rightarrow>
                    if l > 0 then
                      (case int4mul l 30 of Inl e \<Rightarrow> Inl e
                       | Inr v_warranty_days \<Rightarrow>
                      (case int4mul (COALESCE (Option.bind v_product service_interval_months) 6) 30 of
                         Inl e \<Rightarrow> Inl e
                       | Inr v_service_days \<Rightarrow> Inr (v_warranty_days, v_service_days)))
                    else Inr by_usage) of
            Inl e \<Rightarrow> Some (Inl e)
          | Inr (v_warranty_days, v_service_days) \<Rightarrow>
              (case date_pli CURRENT_DATE v_warranty_days of Inl e \<Rightarrow> Some (Inl e)
               | Inr warranty_end \<Rightarrow>
              (case date_pli CURRENT_DATE v_service_days of Inl e \<Rightarrow> Some (Inl e)
               | Inr next_service \<Rightarrow>
                  (let row = \<lparr>cp_id = new_id, cp_customer_id = v_customer_id,
                              cp_product_id = ti_product_id NEW,
                              cp_transaction_id = ti_transaction_id NEW,
                              cp_transaction_item_id = ti_id NEW,
                              cp_quantity = ti_quantity NEW,
                              installation_date = CURRENT_DATE,
                              warranty_end_date = warranty_end,
                              next_service_date = next_service,
                              cp_status = ''active'',
                              service_flow_config_snapshot =
                                Option.bind v_product service_flow_config,
                              lifecycle_months_snapshot =
                                Option.bind v_product lifecycle_months,
                              service_interval_months_snapshot =
                                Option.bind v_product service_interval_months\<rparr>
                   in generate_scheduled_service_tasks
                        (db\<lparr>customer_products := customer_products db @ [row]\<rparr>) row)))))"

subsection \<open>The trigger functions of migration SPEC-005\<close>

text \<open>\<^verbatim>\<open>generate_transaction_number\<close> runs before the insert of \<open>NEW\<close> into
  \<^verbatim>\<open>transactions\<close>, when \<^verbatim>\<open>NEW.transaction_no IS NULL\<close>. \<open>now\<close> is the year and the
  month of \<^verbatim>\<open>NOW()\<close>. A row whose \<^verbatim>\<open>transaction_no\<close> is \<^verbatim>\<open>NULL\<close> does not satisfy
  the \<^verbatim>\<open>LIKE\<close>.\<close>

definition generate_transaction_number ::
  "database \<Rightarrow> nat \<times> nat \<Rightarrow> transactions_row \<Rightarrow> transactions_row" where
  "generate_transaction_number db now NEW =
     (let v_customer_prefix = UPPER (LEFT (customer_id NEW) 6);
          v_prefix = ''INV-'' @ TO_CHAR_YYYYMM now @ ''-'' @ v_customer_prefix @ ''-'';
          v_count = int (length (filter
                      (\<lambda>t. case transaction_no t of None \<Rightarrow> False
                                | Some n \<Rightarrow> LIKE n (v_prefix @ ''%''))
                      (transactions db))) + 1;
          v_number = v_prefix @ LPAD (int_text v_count) 3 (CHR ''0'')
      in NEW\<lparr>transaction_no := Some v_number\<rparr>)"

definition on_transaction_generate_number ::
  "database \<Rightarrow> nat \<times> nat \<Rightarrow> transactions_row \<Rightarrow> transactions_row" where
  "on_transaction_generate_number db now NEW =
     (if transaction_no NEW = None then generate_transaction_number db now NEW else NEW)"

text \<open>
  \<^verbatim>\<open>auto_create_customer_product_v2\<close> replaces the first variant on the trigger
  \<^verbatim>\<open>on_transaction_item_created\<close>. It takes the installation date from
  \<^verbatim>\<open>NEW.service_start_date\<close> when there is one, and inserts only for a product whose
  type is \<^verbatim>\<open>tangible\<close> or \<^verbatim>\<open>NULL\<close>. \<^verbatim>\<open>v_product\<close>, \<open>CURRENT_DATE\<close> and \<open>new_id\<close>
  are as in the first variant.
\<close>

definition auto_create_customer_product_v2 ::
  "database \<Rightarrow> date \<Rightarrow> uuid \<Rightarrow> transaction_items_row \<Rightarrow> (sql_error + database) option" where
  "auto_create_customer_product_v2 db CURRENT_DATE new_id NEW =
     (let v_customer_id =
            map_option customer_id (find (\<lambda>t. t_id t = ti_transaction_id NEW) (transactions db));
          v_product = products db (ti_product_id NEW);
          v_install_date = COALESCE (service_start_date NEW) CURRENT_DATE
      in (case (case Option.bind v_product lifecycle_months of
                  None \<Rightarrow> Inr (COALESCE (Option.bind v_product usage_duration_days) 365)
                | Some l \<Rightarrow>
                    if l > 0 then int4mul l 30
                    else Inr (COALESCE (Option.bind v_product usage_duration_days) 365)) of
            Inl e \<Rightarrow> Some (Inl e)
          | Inr v_warranty_days \<Rightarrow>
              if Option.bind v_product product_type = Some ''tangible''
                 \<or> Option.bind v_product product_type = None
              then
                (case date_pli v_install_date v_warranty_days of Inl e \<Rightarrow> Some (Inl e)
                 | Inr warranty_end \<Rightarrow>
                (case int4mul (COALESCE (Option.bind v_product service_interval_months) 6) 30 of
                   Inl e \<Rightarrow> Some (Inl e)
                 | Inr service_days \<Rightarrow>
                (case date_pli v_install_date service_days of Inl e \<Rightarrow> Some (Inl e)
                 | Inr next_service \<Rightarrow>
                    (let row = \<lparr>cp_id = new_id, cp_customer_id = v_customer_id,
                                cp_product_id = ti_product_id NEW,
                                cp_transaction_id = ti_transaction_id NEW,
                                cp_transaction_item_id = ti_id NEW,
                                cp_quantity = ti_quantity NEW,
                                installation_date = v_install_date,
                                warranty_end_date = warranty_end,
                                next_service_date = next_service,
                                cp_status = ''active'',
                                service_flow_config_snapshot =
                                  Option.bind v_product service_flow_config,
                                lifecycle_months_snapshot =
                                  Option.bind v_product lifecycle_months,
                                service_interval_months_snapshot =
                                  Option.bind v_product service_interval_months\<rparr>
                     in generate_scheduled_service_tasks
                          (db\<lparr>customer_products := customer_products db @ [row]\<rparr>) row))))
              else Some (Inr db)))"

text \<open>A later edit of a product: \<^verbatim>\<open>UPDATE products SET ... WHERE id = pid\<close>. The
  migrations define no trigger on \<^verbatim>\<open>products\<close>.\<close>

definition update_product :: "uuid \<Rightarrow> (Product \<Rightarrow> Product) \<Rightarrow> database \<Rightarrow> database" where
  "update_product pid f db = db\<lparr>products := (products db)(pid := map_option f (products db pid))\<rparr>"

declare retention_loop.simps [code]

declare retention_while.simps [code]

subsection \<open>Closed forms\<close>

text \<open>What the two generators return, written without the loops. The lemmas of the
  next section prove that the generators compute these lists.\<close>

text \<open>The months at which the loop pushes a node, as a list: the loop in closed form,
  for the proofs.\<close>

function retention_months :: "int \<Rightarrow> int \<Rightarrow> int \<Rightarrow> int list" where
  "retention_months interval lifecycle currentMonth =
     (if 0 < interval \<and> currentMonth < lifecycle
      then currentMonth # retention_months interval lifecycle (currentMonth + interval)
      else [])"
  by pat_completeness auto
termination
  by (relation "measure (\<lambda>(interval, lifecycle, currentMonth). nat (lifecycle - currentMonth))") auto

declare retention_months.simps [simp del]

definition retention_node :: "(date \<Rightarrow> string) \<Rightarrow> date \<Rightarrow> int \<Rightarrow> FlowPreviewNode" where
  "retention_node formatDate serviceStartDate m =
     \<lparr>month = m,
      date = formatDate (setMonth serviceStartDate (getMonth serviceStartDate + m)),
      phase = retention_phase, action = label_clean, customMessage = None\<rparr>"

definition preview_months :: "Product \<Rightarrow> int \<Rightarrow> int list" where
  "preview_months product lifecycle =
     (if chain_enabled (service_flow_config product) retention
      then (case service_interval_months product of
              None \<Rightarrow> [] | Some interval \<Rightarrow> retention_months interval lifecycle interval)
      else [])"

definition config_task_name ::
  "Product \<Rightarrow> (ServiceFlowConfig \<Rightarrow> PhaseConfig option) \<Rightarrow> string option" where
  "config_task_name product sel =
     Option.bind (Option.bind (service_flow_config product) sel) task_name"

definition onboarding_nodes :: "(date \<Rightarrow> string) \<Rightarrow> Product \<Rightarrow> date \<Rightarrow> FlowPreviewNode list" where
  "onboarding_nodes formatDate product start =
     (if chain_enabled (service_flow_config product) onboarding
      then [\<lparr>month = 0, date = formatDate start, phase = onboarding_phase,
             action = or_default (config_task_name product onboarding) label_install,
             customMessage = None\<rparr>]
      else [])"

definition maturity_nodes ::
  "(date \<Rightarrow> string) \<Rightarrow> Product \<Rightarrow> int \<Rightarrow> date \<Rightarrow> FlowPreviewNode list" where
  "maturity_nodes formatDate product lifecycle start =
     (if chain_enabled (service_flow_config product) maturity
      then [\<lparr>month = lifecycle,
             date = formatDate (setMonth start (getMonth start + lifecycle)),
             phase = maturity_phase,
             action = or_default (config_task_name product maturity) label_renew,
             customMessage = None\<rparr>]
      else [])"

definition preview_nodes :: "(date \<Rightarrow> string) \<Rightarrow> Product \<Rightarrow> date \<Rightarrow> FlowPreviewNode list" where
  "preview_nodes formatDate product start =
     (case lifecycle_months product of
        None \<Rightarrow> []
      | Some lifecycle \<Rightarrow>
          if lifecycle \<le> 0 then []
          else onboarding_nodes formatDate product start
               @ map (retention_node formatDate start) (preview_months product lifecycle)
               @ maturity_nodes formatDate product lifecycle start)"

text \<open>The inputs on which the arithmetic of the trigger stays in range: the anchor is a
  \<^verbatim>\<open>DATE\<close>, and thirty times the lifecycle is an \<^verbatim>\<open>INT\<close> that, added to the anchor,
  is a \<^verbatim>\<open>DATE\<close> again.\<close>

definition sql_in_range :: "date \<Rightarrow> int \<Rightarrow> bool" where
  "sql_in_range d lifecycle =
     (date_range d \<and> lifecycle * 30 \<le> 2147483647 \<and> date_range (d + lifecycle * 30))"

text \<open>The context in which no insert of the trigger fails on a reference: the row
  \<open>NEW\<close> is in \<^verbatim>\<open>customer_products\<close> (the trigger fires after its insert), its
  customer, if it has one, is in \<^verbatim>\<open>customers\<close>, and the message template that the
  configuration names for an enabled phase, if it names one, is the text of a UUID
  that is the \<^verbatim>\<open>id\<close> of a row of \<^verbatim>\<open>message_templates\<close>.\<close>

definition template_exists :: "database \<Rightarrow> PhaseConfig option \<Rightarrow> bool" where
  "template_exists db p =
     (case Option.bind p message_template_id of
        None \<Rightarrow> True
      | Some source \<Rightarrow>
          (case uuid_in source of
             Inl e \<Rightarrow> False
           | Inr u \<Rightarrow> u \<in> mt_id ` set (message_templates db)))"

definition references_exist :: "database \<Rightarrow> customer_products_row \<Rightarrow> bool" where
  "references_exist db NEW =
     (cp_id NEW \<in> cp_id ` set (customer_products db)
      \<and> (case cp_customer_id NEW of None \<Rightarrow> True | Some c \<Rightarrow> c \<in> set (customers db))
      \<and> (json_enabled (onboarding (COALESCE (service_flow_config_snapshot NEW) empty_jsonb))
           \<longrightarrow> template_exists db
                 (onboarding (COALESCE (service_flow_config_snapshot NEW) empty_jsonb)))
      \<and> (json_enabled (retention (COALESCE (service_flow_config_snapshot NEW) empty_jsonb))
           \<longrightarrow> template_exists db
                 (retention (COALESCE (service_flow_config_snapshot NEW) empty_jsonb)))
      \<and> (json_enabled (maturity (COALESCE (service_flow_config_snapshot NEW) empty_jsonb))
           \<longrightarrow> template_exists db
                 (maturity (COALESCE (service_flow_config_snapshot NEW) empty_jsonb))))"

text \<open>The template of a row in that context: the configured one, or the default of the
  phase.\<close>

definition row_template :: "database \<Rightarrow> PhaseConfig option \<Rightarrow> phase \<Rightarrow> uuid option" where
  "row_template db p ph =
     (case template_reference p (default_template db ph) of
        Inl e \<Rightarrow> None
      | Inr template \<Rightarrow> template)"

definition scheduled_rows :: "database \<Rightarrow> customer_products_row \<Rightarrow> scheduled_service_tasks_row list" where
  "scheduled_rows db NEW =
     (let v_config = COALESCE (service_flow_config_snapshot NEW) empty_jsonb;
          v_lifecycle = COALESCE (lifecycle_months_snapshot NEW) 0;
          v_interval = COALESCE (service_interval_months_snapshot NEW) 0
      in if v_lifecycle \<le> 0 \<or> v_interval \<le> 0 then []
         else (if json_enabled (onboarding v_config)
               then [onboarding_task NEW v_config
                       (row_template db (onboarding v_config) onboarding_phase)]
               else [])
              @ map (\<lambda>m. retention_task NEW m (installation_date NEW + m * 30)
                            (row_template db (retention v_config) retention_phase))
                    (if json_enabled (retention v_config)
                     then retention_months v_interval v_lifecycle v_interval else [])
              @ (if json_enabled (maturity v_config)
                 then [maturity_task NEW v_config (installation_date NEW + v_lifecycle * 30)
                         (row_template db (maturity v_config) maturity_phase)]
                 else []))"

subsection \<open>Notions of the claims\<close>

text \<open>The record of a phase in a product's configuration, if the configuration and
  the record are there.\<close>

definition phase_record :: "Product \<Rightarrow> phase \<Rightarrow> PhaseConfig option" where
  "phase_record product ph =
     Option.bind (service_flow_config product)
       (case ph of onboarding_phase \<Rightarrow> onboarding
                 | retention_phase \<Rightarrow> retention
                 | maturity_phase \<Rightarrow> maturity)"

text \<open>The nodes that the preview shows for a phase whose record is \<open>r\<close>: none when the
  record does not enable the phase; otherwise the onboarding node at the anchor, the
  retention nodes at the multiples of the interval below the lifecycle, or the maturity
  node at the end of the lifecycle. A phase without a record has no nodes.\<close>

definition record_nodes ::
  "(date \<Rightarrow> string) \<Rightarrow> Product \<Rightarrow> int \<Rightarrow> date \<Rightarrow> phase \<Rightarrow> PhaseConfig \<Rightarrow> FlowPreviewNode list" where
  "record_nodes formatDate product lifecycle start ph r =
     (if enabled r = Some True then
        (case ph of
           onboarding_phase \<Rightarrow>
             [\<lparr>month = 0, date = formatDate start, phase = onboarding_phase,
               action = or_default (task_name r) label_install, customMessage = None\<rparr>]
         | retention_phase \<Rightarrow>
             map (\<lambda>m. \<lparr>month = m, date = formatDate (setMonth start (getMonth start + m)),
                        phase = retention_phase, action = label_clean, customMessage = None\<rparr>)
               (case service_interval_months product of
                  None \<Rightarrow> []
                | Some interval \<Rightarrow> retention_months interval lifecycle interval)
         | maturity_phase \<Rightarrow>
             [\<lparr>month = lifecycle,
               date = formatDate (setMonth start (getMonth start + lifecycle)),
               phase = maturity_phase,
               action = or_default (task_name r) label_renew, customMessage = None\<rparr>])
      else [])"

definition phase_nodes ::
  "(date \<Rightarrow> string) \<Rightarrow> Product \<Rightarrow> int \<Rightarrow> date \<Rightarrow> phase \<Rightarrow> FlowPreviewNode list" where
  "phase_nodes formatDate product lifecycle start ph =
     (case phase_record product ph of
        None \<Rightarrow> []
      | Some r \<Rightarrow> record_nodes formatDate product lifecycle start ph r)"

text \<open>The rows that a trigger run added to \<^verbatim>\<open>scheduled_service_tasks\<close>.\<close>

definition inserted_tasks :: "database \<Rightarrow> database \<Rightarrow> scheduled_service_tasks_row list" where
  "inserted_tasks db db' = drop (length (scheduled_service_tasks db)) (scheduled_service_tasks db')"

text \<open>The materialized rows and the preview nodes are the same sequence of touchpoints:
  both runs return, and the phases and the dates, printed alike, agree one by one.\<close>

definition same_touchpoints ::
  "(date \<Rightarrow> string) \<Rightarrow> database \<Rightarrow> (sql_error + database) option \<Rightarrow>
   (js_error + FlowPreviewNode list) option \<Rightarrow> bool" where
  "same_touchpoints formatDate db materialized preview =
     (case materialized of
        Some (Inr db') \<Rightarrow>
          (case preview of
             Some (Inr nodes) \<Rightarrow>
               map (\<lambda>t. (sst_phase t, formatDate (scheduled_date t))) (inserted_tasks db db')
               = map (\<lambda>n. (phase n, date n)) nodes
           | _ \<Rightarrow> False)
      | _ \<Rightarrow> False)"

text \<open>A string without the special characters of a \<^verbatim>\<open>LIKE\<close> pattern.\<close>

definition wildcard_free :: "string \<Rightarrow> bool" where
  "wildcard_free s = (\<forall>c \<in> set s. c \<noteq> CHR ''%'' \<and> c \<noteq> CHR ''_'' \<and> c \<noteq> CHR 0x5C)"

subsection \<open>Inputs of the examples\<close>

text \<open>The examples abbreviate the \<^verbatim>\<open>id\<close>s of records, products, transactions and line
  items (\<^verbatim>\<open>cp-1\<close>, \<^verbatim>\<open>p-1\<close>, \<^verbatim>\<open>t-1\<close>, \<^verbatim>\<open>i-1\<close>), which the functions only copy and
  compare. The \<^verbatim>\<open>id\<close>s of the customer and of the message template, which the functions
  print or obtain by a cast, are written in full.\<close>

text \<open>The column default of \<^verbatim>\<open>products.service_flow_config\<close> (migration SPEC-004): the
  three phases enabled.\<close>

definition default_service_flow_config :: ServiceFlowConfig where
  "default_service_flow_config =
     \<lparr>onboarding = Some \<lparr>enabled = Some True, task_name = Some ''Install Product'',
                          reminder_days_before = None, message_template_id = None\<rparr>,
      retention = Some \<lparr>enabled = Some True, task_name = None,
                         reminder_days_before = Some 7, message_template_id = None\<rparr>,
      maturity = Some \<lparr>enabled = Some True, task_name = Some ''Call for MA Renewal'',
                        reminder_days_before = None, message_template_id = None\<rparr>\<rparr>"

text \<open>The same with the retention phase switched off.\<close>

definition onboarding_maturity_config :: ServiceFlowConfig where
  "onboarding_maturity_config =
     default_service_flow_config
       \<lparr>retention := Some \<lparr>enabled = Some False, task_name = None,
                            reminder_days_before = Some 7, message_template_id = None\<rparr>\<rparr>"

text \<open>A configuration that holds the maturity record only.\<close>

definition maturity_only_config :: ServiceFlowConfig where
  "maturity_only_config =
     \<lparr>onboarding = None, retention = None,
      maturity = Some \<lparr>enabled = Some True, task_name = None,
                        reminder_days_before = None, message_template_id = None\<rparr>\<rparr>"

text \<open>The default configuration without its onboarding record.\<close>

definition retention_maturity_config :: ServiceFlowConfig where
  "retention_maturity_config = default_service_flow_config\<lparr>onboarding := None\<rparr>"

definition example_product :: "int \<Rightarrow> int \<Rightarrow> ServiceFlowConfig option \<Rightarrow> Product" where
  "example_product lifecycle interval cfg =
     \<lparr>product_type = Some ''tangible'', lifecycle_months = Some lifecycle,
      service_interval_months = Some interval, service_flow_config = cfg,
      usage_duration_days = None\<rparr>"

text \<open>The \<^verbatim>\<open>customer_products\<close> row that a purchase of such a product on day \<open>d\<close>
  leaves.\<close>

definition example_row :: "date \<Rightarrow> int \<Rightarrow> int \<Rightarrow> ServiceFlowConfig option \<Rightarrow> customer_products_row" where
  "example_row d lifecycle interval cfg =
     \<lparr>cp_id = ''cp-1'', cp_customer_id = Some ''3f2a9c1e-0000-4000-8000-000000000001'',
      cp_product_id = ''p-1'', cp_transaction_id = ''t-1'', cp_transaction_item_id = ''i-1'',
      cp_quantity = 1, installation_date = d, warranty_end_date = d + lifecycle * 30,
      next_service_date = d + interval * 30, cp_status = ''active'',
      service_flow_config_snapshot = cfg, lifecycle_months_snapshot = Some lifecycle,
      service_interval_months_snapshot = Some interval\<rparr>"

definition empty_database :: database where
  "empty_database =
     \<lparr>products = Map.empty, customers = [], transactions = [], customer_products = [],
      scheduled_service_tasks = [], message_templates = []\<rparr>"

text \<open>The database in which the trigger finds the row \<open>NEW\<close> after its insert: the
  customer of the examples and that row, no default message template, and the
  templates \<open>templates\<close>.\<close>

definition example_database :: "message_templates_row list \<Rightarrow> customer_products_row \<Rightarrow> database" where
  "example_database templates NEW =
     \<lparr>products = Map.empty, customers = [''3f2a9c1e-0000-4000-8000-000000000001''],
      transactions = [], customer_products = [NEW], scheduled_service_tasks = [],
      message_templates = templates\<rparr>"

text \<open>A message template of the onboarding phase, and the default configuration with
  that template chosen for onboarding, its \<^verbatim>\<open>id\<close> written in capitals. When the
  template has been deleted, the configuration still names it.\<close>

definition welcome_template :: message_templates_row where
  "welcome_template =
     \<lparr>mt_id = ''a0eebc99-9c0b-4ef8-bb6d-6bb9bd380a11'', mt_type = onboarding_phase,
      is_default = False\<rparr>"

definition welcome_config :: ServiceFlowConfig where
  "welcome_config =
     default_service_flow_config
       \<lparr>onboarding := Some \<lparr>enabled = Some True, task_name = Some ''Install Product'',
                             reminder_days_before = None,
                             message_template_id =
                               Some ''A0EEBC99-9C0B-4EF8-BB6D-6BB9BD380A11''\<rparr>\<rparr>"

text \<open>The default configuration with a text for the onboarding template that is no
  UUID.\<close>

definition malformed_template_config :: ServiceFlowConfig where
  "malformed_template_config =
     default_service_flow_config
       \<lparr>onboarding := Some \<lparr>enabled = Some True, task_name = Some ''Install Product'',
                             reminder_days_before = None,
                             message_template_id = Some ''not-a-uuid''\<rparr>\<rparr>"

text \<open>A purchase of the example product: the product table, the transaction and the
  line item.\<close>

definition example_shop :: "Product \<Rightarrow> database" where
  "example_shop p =
     \<lparr>products = [''p-1'' \<mapsto> p],
      customers = [''3f2a9c1e-0000-4000-8000-000000000001''],
      transactions = [\<lparr>t_id = ''t-1'', customer_id = ''3f2a9c1e-0000-4000-8000-000000000001'',
                       transaction_no = Some ''INV-202501-3F2A9C-001''\<rparr>],
      customer_products = [], scheduled_service_tasks = [], message_templates = []\<rparr>"

definition example_item :: "uuid \<Rightarrow> transaction_items_row" where
  "example_item pid =
     \<lparr>ti_id = ''i-1'', ti_transaction_id = ''t-1'', ti_product_id = pid, ti_quantity = 1,
      service_start_date = Some 20103\<rparr>"

text \<open>The transactions of one customer that carry the numbers 001 to \<open>n\<close> of January
  2025.\<close>

definition numbered_transactions :: "nat \<Rightarrow> transactions_row list" where
  "numbered_transactions n =
     map (\<lambda>k. \<lparr>t_id = ''t-'' @ nat_text k,
                customer_id = ''3f2a9c1e-0000-4000-8000-000000000001'',
                transaction_no = Some (''INV-202501-3F2A9C-'' @ LPAD (int_text (int k)) 3 (CHR ''0''))\<rparr>)
         [1..<Suc n]"

definition new_transaction :: transactions_row where
  "new_transaction =
     \<lparr>t_id = ''t-new'', customer_id = ''3f2a9c1e-0000-4000-8000-000000000001'',
      transaction_no = None\<rparr>"

section \<open>The generators compute their closed forms\<close>

subsection \<open>The preview\<close>

lemma retention_loop_months:
  "0 < interval \<Longrightarrow>
   retention_loop formatDate start interval lifecycle currentMonth nodes =
     Some (nodes @ map (retention_node formatDate start)
                       (retention_months interval lifecycle currentMonth))"
proof (induction interval lifecycle currentMonth arbitrary: nodes rule: retention_months.induct)
  case (1 interval lifecycle currentMonth)
  show ?case
  proof (cases "currentMonth < lifecycle")
    case True
    with 1 show ?thesis
      by (subst retention_loop.simps, subst retention_months.simps)
         (simp add: retention_node_def)
  next
    case False
    then show ?thesis
      by (subst retention_loop.simps, subst retention_months.simps) simp
  qed
qed

lemma chain_enabledD:
  "chain_enabled cfg sel \<Longrightarrow> \<exists>c p. cfg = Some c \<and> sel c = Some p \<and> enabled p = Some True"
  by (auto simp: chain_enabled_def split: option.splits)

lemma chain_enabled_Some: "chain_enabled (Some cfg) sel = json_enabled (sel cfg)"
  by (simp add: chain_enabled_def json_enabled_def)

lemma onboarding_block_nodes:
  "onboarding_block formatDate product start nodes =
     Inr (nodes @ onboarding_nodes formatDate product start)"
proof (cases "chain_enabled (service_flow_config product) onboarding")
  case True
  then obtain c p where "service_flow_config product = Some c" "onboarding c = Some p"
    using chain_enabledD by blast
  with True show ?thesis
    by (simp add: onboarding_block_def onboarding_nodes_def deref_def config_task_name_def)
next
  case False
  then show ?thesis by (simp add: onboarding_block_def onboarding_nodes_def)
qed

lemma maturity_block_nodes:
  "maturity_block formatDate product lifecycle start nodes =
     Inr (nodes @ maturity_nodes formatDate product lifecycle start)"
proof (cases "chain_enabled (service_flow_config product) maturity")
  case True
  then obtain c p where "service_flow_config product = Some c" "maturity c = Some p"
    using chain_enabledD by blast
  with True show ?thesis
    by (simp add: maturity_block_def maturity_nodes_def deref_def config_task_name_def)
next
  case False
  then show ?thesis by (simp add: maturity_block_def maturity_nodes_def)
qed

lemma retention_months_nonpos:
  "\<not> 0 < interval \<Longrightarrow> retention_months interval lifecycle m = []"
  by (simp add: retention_months.simps)

lemma retention_block_nodes:
  "retention_block formatDate product lifecycle start nodes =
     Some (nodes @ map (retention_node formatDate start) (preview_months product lifecycle))"
proof (cases "service_interval_months product")
  case None
  then show ?thesis by (simp add: retention_block_def preview_months_def)
next
  case (Some interval)
  show ?thesis
  proof (cases "0 < interval")
    case True
    with Some show ?thesis
      by (simp add: retention_block_def preview_months_def retention_loop_months)
  next
    case False
    with Some show ?thesis
      by (simp add: retention_block_def preview_months_def retention_months.simps)
  qed
qed

lemma generateTimelineNodes_nodes:
  "generateTimelineNodes formatDate product start =
     Some (Inr (preview_nodes formatDate product start))"
  by (simp add: generateTimelineNodes_def preview_nodes_def onboarding_block_nodes
        retention_block_nodes maturity_block_nodes split: option.splits)

lemma phase_retention_node [simp]:
  "phase (retention_node formatDate start m) = retention_phase"
  by (simp add: retention_node_def)

lemma month_retention_node [simp]: "month (retention_node formatDate start m) = m"
  by (simp add: retention_node_def)

text \<open>The guard \<^verbatim>\<open>service_interval_months > 0\<close> is what keeps the preview's loop
  finite: entered with an interval of 0 below the lifecycle, the loop does not return.\<close>

lemma retention_loop_Some_interval_zero:
  assumes "retention_loop formatDate start interval lifecycle currentMonth nodes = Some r"
  shows "interval = 0 \<longrightarrow> \<not> currentMonth < lifecycle"
  by (rule retention_loop.raw_induct
        [where P = "\<lambda>formatDate start interval lifecycle currentMonth nodes r.
                      interval = 0 \<longrightarrow> \<not> currentMonth < lifecycle", OF _ assms])
     (auto split: if_splits)

lemma retention_loop_unguarded:
  "currentMonth < lifecycle \<Longrightarrow>
   retention_loop formatDate start 0 lifecycle currentMonth nodes = None"
  using retention_loop_Some_interval_zero [of formatDate start 0 lifecycle currentMonth nodes]
  by (cases "retention_loop formatDate start 0 lifecycle currentMonth nodes") auto

lemma chain_enabled_phase_record:
  "chain_enabled (service_flow_config product) onboarding \<Longrightarrow>
     phase_record product onboarding_phase \<noteq> None"
  "chain_enabled (service_flow_config product) retention \<Longrightarrow>
     phase_record product retention_phase \<noteq> None"
  "chain_enabled (service_flow_config product) maturity \<Longrightarrow>
     phase_record product maturity_phase \<noteq> None"
  by (auto simp: chain_enabled_def phase_record_def split: option.splits)

lemma preview_months_disabled:
  "\<not> chain_enabled (service_flow_config product) retention \<Longrightarrow>
     preview_months product lifecycle = []"
  by (simp add: preview_months_def)

lemma preview_nodes_phase_record:
  "n \<in> set (preview_nodes formatDate product start) \<Longrightarrow> phase_record product (phase n) \<noteq> None"
proof (cases "chain_enabled (service_flow_config product) retention")
  case True
  assume "n \<in> set (preview_nodes formatDate product start)"
  with True show ?thesis
    by (auto simp: preview_nodes_def onboarding_nodes_def maturity_nodes_def
          dest: chain_enabled_phase_record split: option.splits if_splits)
next
  case False
  assume "n \<in> set (preview_nodes formatDate product start)"
  with False show ?thesis
    by (auto simp: preview_nodes_def onboarding_nodes_def maturity_nodes_def
          preview_months_disabled dest: chain_enabled_phase_record split: option.splits if_splits)
qed

lemma preview_nodes_no_config:
  "service_flow_config product = None \<Longrightarrow> preview_nodes formatDate product start = []"
  by (simp add: preview_nodes_def onboarding_nodes_def maturity_nodes_def preview_months_def
        chain_enabled_def split: option.splits)

subsection \<open>The trigger\<close>

text \<open>The cast on some texts: capitals, braces and missing hyphens are read; other
  texts are refused.\<close>

lemma uuid_in_texts:
  "uuid_in ''a0eebc99-9c0b-4ef8-bb6d-6bb9bd380a11'' = Inr ''a0eebc99-9c0b-4ef8-bb6d-6bb9bd380a11''"
  "uuid_in ''A0EEBC99-9C0B-4EF8-BB6D-6BB9BD380A11'' = Inr ''a0eebc99-9c0b-4ef8-bb6d-6bb9bd380a11''"
  "uuid_in ([CHR 0x7B] @ ''a0eebc99-9c0b-4ef8-bb6d-6bb9bd380a11'' @ [CHR 0x7D])
     = Inr ''a0eebc99-9c0b-4ef8-bb6d-6bb9bd380a11''"
  "uuid_in ''a0eebc999c0b4ef8bb6d6bb9bd380a11'' = Inr ''a0eebc99-9c0b-4ef8-bb6d-6bb9bd380a11''"
  "uuid_in ''not-a-uuid'' = Inl invalid_text_representation"
  "uuid_in [] = Inl invalid_text_representation"
  "uuid_in ''a0eebc99-9c0b-4ef8-bb6d-6bb9bd380a1'' = Inl invalid_text_representation"
  "uuid_in ''a0eebc99-9c0b-4ef8-bb6d-6bb9bd380a11 '' = Inl invalid_text_representation"
  by code_simp+

lemma default_template_exists:
  "default_template db ty = Some u \<Longrightarrow> u \<in> mt_id ` set (message_templates db)"
  by (auto simp: default_template_def find_Some_iff)

lemma template_reference_exists:
  assumes "template_exists db p"
  shows "template_reference p (default_template db ph) = Inr (row_template db p ph)"
    and "case row_template db p ph of
           None \<Rightarrow> True
         | Some t \<Rightarrow> t \<in> mt_id ` set (message_templates db)"
  using assms
  by (auto simp: template_exists_def template_reference_def row_template_def
        split: option.splits sum.splits dest: default_template_exists)

lemma INSERT_INTO_scheduled_service_tasks_row:
  assumes "cp_id NEW \<in> cp_id ` set (customer_products db)"
    and "case cp_customer_id NEW of None \<Rightarrow> True | Some c \<Rightarrow> c \<in> set (customers db)"
    and "template_exists db p"
    and "customer_product_id row = cp_id NEW" and "sst_customer_id row = cp_customer_id NEW"
    and "sst_message_template_id row = row_template db p ph"
  shows "INSERT_INTO_scheduled_service_tasks db row tasks = Inr (tasks @ [row])"
  using assms template_reference_exists(2) [OF assms(3), of ph]
  by (simp add: INSERT_INTO_scheduled_service_tasks_def references_hold_def)

lemma retention_while_months:
  assumes "0 < v_interval" "v_interval \<le> v_current_month"
    and "sql_in_range (installation_date NEW) v_lifecycle"
    and "cp_id NEW \<in> cp_id ` set (customer_products db)"
    and "case cp_customer_id NEW of None \<Rightarrow> True | Some c \<Rightarrow> c \<in> set (customers db)"
    and "template_exists db (retention v_config)"
  shows "retention_while db NEW v_config (default_template db retention_phase) v_interval
           v_lifecycle v_current_month tasks =
     Some (Inr (tasks @ map (\<lambda>m. retention_task NEW m (installation_date NEW + m * 30)
                                   (row_template db (retention v_config) retention_phase))
                            (retention_months v_interval v_lifecycle v_current_month)))"
  using assms
proof (induction v_interval v_lifecycle v_current_month arbitrary: tasks rule: retention_months.induct)
  case (1 interval lifecycle currentMonth)
  show ?case
  proof (cases "currentMonth < lifecycle")
    case True
    from True 1(2,3,4) have mul: "int4mul currentMonth 30 = Inr (currentMonth * 30)"
      by (simp add: int4mul_def int4_range_def sql_in_range_def)
    from True 1(2,3,4) have pli:
      "date_pli (installation_date NEW) (currentMonth * 30) = Inr (installation_date NEW + currentMonth * 30)"
      by (simp add: date_pli_def date_range_def sql_in_range_def)
    from True 1(2,3,4) have pl: "int4pl currentMonth interval = Inr (currentMonth + interval)"
      by (simp add: int4pl_def int4_range_def sql_in_range_def)
    from True 1(2,3) have step: "0 < interval \<and> currentMonth < lifecycle" "interval \<le> currentMonth + interval"
      by simp_all
    have ins: "INSERT_INTO_scheduled_service_tasks db
        (retention_task NEW currentMonth (installation_date NEW + currentMonth * 30)
           (row_template db (retention v_config) retention_phase)) tasks
      = Inr (tasks @ [retention_task NEW currentMonth (installation_date NEW + currentMonth * 30)
           (row_template db (retention v_config) retention_phase)])"
      by (rule INSERT_INTO_scheduled_service_tasks_row [OF 1(5-7)])
         (simp_all add: retention_task_def)
    show ?thesis
      by (subst retention_while.simps, subst retention_months.simps)
         (simp add: True mul pli pl ins 1(2) template_reference_exists(1) [OF 1(7)]
            "1.IH"[OF step(1) 1(2) step(2) 1(4-7)])
  next
    case False
    then show ?thesis
      by (subst retention_while.simps, subst retention_months.simps) simp
  qed
qed

lemma onboarding_insert_task:
  assumes "cp_id NEW \<in> cp_id ` set (customer_products db)"
    and "case cp_customer_id NEW of None \<Rightarrow> True | Some c \<Rightarrow> c \<in> set (customers db)"
    and "json_enabled (onboarding v_config) \<longrightarrow> template_exists db (onboarding v_config)"
  shows "onboarding_insert db NEW v_config (default_template db onboarding_phase) tasks =
     Inr (tasks @ (if json_enabled (onboarding v_config)
                   then [onboarding_task NEW v_config
                           (row_template db (onboarding v_config) onboarding_phase)]
                   else []))"
proof (cases "json_enabled (onboarding v_config)")
  case True
  with assms(3) have template: "template_exists db (onboarding v_config)"
    by simp
  have "INSERT_INTO_scheduled_service_tasks db
      (onboarding_task NEW v_config (row_template db (onboarding v_config) onboarding_phase)) tasks
    = Inr (tasks @ [onboarding_task NEW v_config
                      (row_template db (onboarding v_config) onboarding_phase)])"
    by (rule INSERT_INTO_scheduled_service_tasks_row [OF assms(1,2) template])
       (simp_all add: onboarding_task_def)
  with True show ?thesis
    by (simp add: onboarding_insert_def template_reference_exists(1) [OF template])
next
  case False
  then show ?thesis by (simp add: onboarding_insert_def)
qed

lemma maturity_insert_task:
  assumes "0 < v_lifecycle" "sql_in_range (installation_date NEW) v_lifecycle"
    and "cp_id NEW \<in> cp_id ` set (customer_products db)"
    and "case cp_customer_id NEW of None \<Rightarrow> True | Some c \<Rightarrow> c \<in> set (customers db)"
    and "json_enabled (maturity v_config) \<longrightarrow> template_exists db (maturity v_config)"
  shows "maturity_insert db NEW v_config (default_template db maturity_phase) v_lifecycle tasks =
     Inr (tasks @ (if json_enabled (maturity v_config)
                   then [maturity_task NEW v_config (installation_date NEW + v_lifecycle * 30)
                           (row_template db (maturity v_config) maturity_phase)]
                   else []))"
proof (cases "json_enabled (maturity v_config)")
  case True
  with assms(5) have template: "template_exists db (maturity v_config)"
    by simp
  from assms(1,2) have mul: "int4mul v_lifecycle 30 = Inr (v_lifecycle * 30)"
    by (simp add: int4mul_def int4_range_def sql_in_range_def)
  from assms(1,2) have pli:
    "date_pli (installation_date NEW) (v_lifecycle * 30) = Inr (installation_date NEW + v_lifecycle * 30)"
    by (simp add: date_pli_def sql_in_range_def)
  have "INSERT_INTO_scheduled_service_tasks db
      (maturity_task NEW v_config (installation_date NEW + v_lifecycle * 30)
         (row_template db (maturity v_config) maturity_phase)) tasks
    = Inr (tasks @ [maturity_task NEW v_config (installation_date NEW + v_lifecycle * 30)
                      (row_template db (maturity v_config) maturity_phase)])"
    by (rule INSERT_INTO_scheduled_service_tasks_row [OF assms(3,4) template])
       (simp_all add: maturity_task_def)
  with True mul pli show ?thesis
    by (simp add: maturity_insert_def template_reference_exists(1) [OF template])
next
  case False
  then show ?thesis by (simp add: maturity_insert_def)
qed

text \<open>In range and with its references in place, the trigger inserts the rows of the
  closed form.\<close>

lemma generate_scheduled_service_tasks_rows:
  assumes "sql_in_range (installation_date NEW) (COALESCE (lifecycle_months_snapshot NEW) 0)"
    and "references_exist db NEW"
  shows "generate_scheduled_service_tasks db NEW =
     Some (Inr (db\<lparr>scheduled_service_tasks := scheduled_service_tasks db @ scheduled_rows db NEW\<rparr>))"
proof (cases "COALESCE (lifecycle_months_snapshot NEW) 0 \<le> 0
              \<or> COALESCE (service_interval_months_snapshot NEW) 0 \<le> 0")
  case True
  then show ?thesis
    by (simp add: generate_scheduled_service_tasks_def scheduled_rows_def Let_def)
next
  case False
  then have pos: "0 < COALESCE (lifecycle_months_snapshot NEW) 0"
    "0 < COALESCE (service_interval_months_snapshot NEW) 0"
    by simp_all
  let ?cfg = "COALESCE (service_flow_config_snapshot NEW) empty_jsonb"
  from assms(2) have refs: "cp_id NEW \<in> cp_id ` set (customer_products db)"
    "case cp_customer_id NEW of None \<Rightarrow> True | Some c \<Rightarrow> c \<in> set (customers db)"
    and templates: "json_enabled (onboarding ?cfg) \<longrightarrow> template_exists db (onboarding ?cfg)"
      "json_enabled (retention ?cfg) \<longrightarrow> template_exists db (retention ?cfg)"
      "json_enabled (maturity ?cfg) \<longrightarrow> template_exists db (maturity ?cfg)"
    by (simp_all add: references_exist_def)
  have loop: "retention_while db NEW ?cfg (default_template db retention_phase)
        (COALESCE (service_interval_months_snapshot NEW) 0)
        (COALESCE (lifecycle_months_snapshot NEW) 0)
        (COALESCE (service_interval_months_snapshot NEW) 0) tasks
      = Some (Inr (tasks @ map (\<lambda>m. retention_task NEW m (installation_date NEW + m * 30)
                                   (row_template db (retention ?cfg) retention_phase))
            (retention_months (COALESCE (service_interval_months_snapshot NEW) 0)
               (COALESCE (lifecycle_months_snapshot NEW) 0)
               (COALESCE (service_interval_months_snapshot NEW) 0))))"
    if "json_enabled (retention ?cfg)" for tasks
    using templates(2) that
    by (intro retention_while_months [OF pos(2) order_refl assms(1) refs]) simp
  show ?thesis
    using False
    by (simp add: generate_scheduled_service_tasks_def scheduled_rows_def Let_def loop
          onboarding_insert_task [OF refs templates(1)]
          maturity_insert_task [OF pos(1) assms(1) refs templates(3)])
qed

text \<open>The early return needs no range and no reference.\<close>

lemma generate_scheduled_service_tasks_skip:
  assumes "COALESCE (lifecycle_months_snapshot NEW) 0 \<le> 0
           \<or> COALESCE (service_interval_months_snapshot NEW) 0 \<le> 0"
  shows "generate_scheduled_service_tasks db NEW = Some (Inr db)"
  using assms by (simp add: generate_scheduled_service_tasks_def Let_def)

text \<open>An enabled onboarding phase whose template is not there makes the trigger raise
  an error, whatever else the row holds.\<close>

lemma uuid_in_error: "uuid_in source = Inl e \<Longrightarrow> e = invalid_text_representation"
  by (auto simp: uuid_in_def split: list.splits if_splits option.splits prod.splits)

lemma onboarding_insert_template_missing:
  assumes "json_enabled (onboarding v_config)"
    and "\<not> template_exists db (onboarding v_config)"
  shows "onboarding_insert db NEW v_config template tasks = Inl invalid_text_representation
       \<or> onboarding_insert db NEW v_config template tasks = Inl foreign_key_violation"
proof (cases "Option.bind (onboarding v_config) message_template_id")
  case None
  with assms(2) show ?thesis by (simp add: template_exists_def)
next
  case (Some source)
  show ?thesis
  proof (cases "uuid_in source")
    case (Inl e)
    with Some assms(1) uuid_in_error [OF Inl] show ?thesis
      by (simp add: onboarding_insert_def template_reference_def)
  next
    case (Inr u)
    with Some assms show ?thesis
      by (simp add: onboarding_insert_def template_reference_def template_exists_def
            INSERT_INTO_scheduled_service_tasks_def references_hold_def onboarding_task_def)
  qed
qed

lemma generate_scheduled_service_tasks_template_missing:
  assumes "0 < COALESCE (lifecycle_months_snapshot NEW) 0"
    and "0 < COALESCE (service_interval_months_snapshot NEW) 0"
    and "json_enabled (onboarding (COALESCE (service_flow_config_snapshot NEW) empty_jsonb))"
    and "\<not> template_exists db (onboarding (COALESCE (service_flow_config_snapshot NEW) empty_jsonb))"
  shows "generate_scheduled_service_tasks db NEW = Some (Inl invalid_text_representation)
       \<or> generate_scheduled_service_tasks db NEW = Some (Inl foreign_key_violation)"
  using assms(1,2)
    onboarding_insert_template_missing [OF assms(3,4), of NEW
      "default_template db onboarding_phase" "scheduled_service_tasks db"]
  by (auto simp: generate_scheduled_service_tasks_def Let_def)

lemma sst_phase_retention_task [simp]:
  "sst_phase (retention_task NEW m d template) = retention_phase"
  by (simp add: retention_task_def)

lemma scheduled_date_retention_task [simp]:
  "scheduled_date (retention_task NEW m d template) = d"
  by (simp add: retention_task_def)

lemma inserted_tasks_append [simp]:
  "inserted_tasks db (db\<lparr>scheduled_service_tasks := scheduled_service_tasks db @ rows\<rparr>) = rows"
  by (simp add: inserted_tasks_def)

lemma inserted_tasks_self [simp]: "inserted_tasks db db = []"
  by (simp add: inserted_tasks_def)

lemma default_template_products [simp]:
  "default_template (db\<lparr>products := ps\<rparr>) ty = default_template db ty"
  by (simp add: default_template_def)

lemma INSERT_INTO_scheduled_service_tasks_products [simp]:
  "INSERT_INTO_scheduled_service_tasks (db\<lparr>products := ps\<rparr>) =
     INSERT_INTO_scheduled_service_tasks db"
  by (simp add: INSERT_INTO_scheduled_service_tasks_def references_hold_def fun_eq_iff
        cong: option.case_cong)

text \<open>The loop reads the database in its inserts only.\<close>

lemma retention_while_inserts_Some:
  assumes "INSERT_INTO_scheduled_service_tasks db' = INSERT_INTO_scheduled_service_tasks db"
    and "retention_while db NEW v_config template v_interval v_lifecycle v_current_month tasks
         = Some r"
  shows "retention_while db' NEW v_config template v_interval v_lifecycle v_current_month tasks
         = Some r"
proof -
  have "d = db \<longrightarrow>
        retention_while db' NEW v_config template v_interval v_lifecycle v_current_month tasks
        = Some r"
    if "retention_while d NEW v_config template v_interval v_lifecycle v_current_month tasks
        = Some r" for d
    using that
  proof (induction rule: retention_while.raw_induct [rotated 1, consumes 1])
    case (1 retention_while' d NEW v_config template v_interval v_lifecycle v_current_month tasks r)
    show ?case
    proof
      assume "d = db"
      with 1 show "retention_while db' NEW v_config template v_interval v_lifecycle
                     v_current_month tasks = Some r"
        by (subst retention_while.simps)
           (auto simp: assms(1) split: if_splits sum.splits)
    qed
  qed
  with assms(2) show ?thesis by simp
qed

lemma retention_while_inserts:
  assumes "INSERT_INTO_scheduled_service_tasks db' = INSERT_INTO_scheduled_service_tasks db"
  shows "retention_while db' NEW v_config template v_interval v_lifecycle v_current_month tasks
       = retention_while db NEW v_config template v_interval v_lifecycle v_current_month tasks"
proof (cases "retention_while db NEW v_config template v_interval v_lifecycle v_current_month tasks")
  case (Some r)
  with retention_while_inserts_Some [OF assms] show ?thesis by simp
next
  case None
  show ?thesis
  proof (cases "retention_while db' NEW v_config template v_interval v_lifecycle v_current_month tasks")
    case (Some r)
    from retention_while_inserts_Some [OF assms [symmetric] Some] None show ?thesis by simp
  next
    case None
    with \<open>retention_while db NEW v_config template v_interval v_lifecycle v_current_month tasks
           = None\<close>
    show ?thesis by simp
  qed
qed

text \<open>The trigger changes \<^verbatim>\<open>scheduled_service_tasks\<close> only, and what it inserts does
  not depend on \<^verbatim>\<open>products\<close>.\<close>

lemma generate_scheduled_service_tasks_other_tables:
  assumes "generate_scheduled_service_tasks db NEW = Some (Inr db')"
  shows "customer_products db' = customer_products db" and "products db' = products db"
    and "transactions db' = transactions db" and "message_templates db' = message_templates db"
    and "customers db' = customers db"
  using assms
  by (auto simp: generate_scheduled_service_tasks_def Let_def
        split: if_splits option.splits sum.splits)

lemma generate_scheduled_service_tasks_products:
  "generate_scheduled_service_tasks (db\<lparr>products := ps\<rparr>) NEW =
     map_option (map_sum id (\<lambda>d. d\<lparr>products := ps\<rparr>)) (generate_scheduled_service_tasks db NEW)"
  by (simp add: generate_scheduled_service_tasks_def Let_def onboarding_insert_def
        maturity_insert_def
        retention_while_inserts [OF INSERT_INTO_scheduled_service_tasks_products]
        split: option.splits sum.splits)

lemma auto_create_customer_product_v2_row:
  assumes "auto_create_customer_product_v2 db today new_id NEW = Some (Inr db')"
    and "products db (ti_product_id NEW) = Some p"
    and "product_type p = Some ''tangible'' \<or> product_type p = None"
  shows "\<exists>row. customer_products db' = customer_products db @ [row]
           \<and> service_flow_config_snapshot row = service_flow_config p
           \<and> lifecycle_months_snapshot row = lifecycle_months p
           \<and> service_interval_months_snapshot row = service_interval_months p
           \<and> installation_date row = COALESCE (service_start_date NEW) today"
  using assms
  by (auto simp: auto_create_customer_product_v2_def Let_def
        split: if_splits option.splits sum.splits
        dest!: generate_scheduled_service_tasks_other_tables(1))

subsection \<open>The trigger against the preview\<close>

lemma chain_enabled_COALESCE:
  "chain_enabled cfg onboarding = json_enabled (onboarding (COALESCE cfg empty_jsonb))"
  "chain_enabled cfg retention = json_enabled (retention (COALESCE cfg empty_jsonb))"
  "chain_enabled cfg maturity = json_enabled (maturity (COALESCE cfg empty_jsonb))"
  by (simp_all add: chain_enabled_def json_enabled_def COALESCE_def empty_jsonb_def
        split: option.splits)

lemma scheduled_rows_preview_nodes:
  assumes "installation_date NEW = start"
    and "lifecycle_months_snapshot NEW = lifecycle_months product"
    and "service_interval_months_snapshot NEW = service_interval_months product"
    and "service_flow_config_snapshot NEW = service_flow_config product"
    and "service_interval_months product = Some interval" and "0 < interval"
  shows "map sst_phase (scheduled_rows db NEW) = map phase (preview_nodes formatDate product start)"
    and "map scheduled_date (scheduled_rows db NEW) =
         map (\<lambda>n. start + month n * 30) (preview_nodes formatDate product start)"
  using assms
  by (auto simp: scheduled_rows_def preview_nodes_def Let_def COALESCE_def [of "Some _"]
        COALESCE_def [of None] onboarding_task_def onboarding_nodes_def maturity_nodes_def
        maturity_task_def preview_months_def chain_enabled_COALESCE comp_def
        split: option.splits)

text \<open>The preview dates its onboarding node at the anchor and every other node by
  \<^verbatim>\<open>setMonth\<close>, the month of the node added to the month of the anchor.\<close>

lemma preview_nodes_dates:
  "map date (preview_nodes formatDate product start) =
     map (\<lambda>n. formatDate (if phase n = onboarding_phase then start
                            else setMonth start (getMonth start + month n)))
       (preview_nodes formatDate product start)"
  by (auto simp: preview_nodes_def onboarding_nodes_def maturity_nodes_def retention_node_def
        split: option.splits)

text \<open>The preview by phases.\<close>

lemma preview_nodes_phase_nodes:
  assumes "lifecycle_months product = Some lifecycle" and "0 < lifecycle"
  shows "preview_nodes formatDate product start =
           phase_nodes formatDate product lifecycle start onboarding_phase
           @ phase_nodes formatDate product lifecycle start retention_phase
           @ phase_nodes formatDate product lifecycle start maturity_phase"
  using assms
  by (simp add: preview_nodes_def phase_nodes_def record_nodes_def phase_record_def
        onboarding_nodes_def maturity_nodes_def preview_months_def retention_node_def
        chain_enabled_def config_task_name_def
        split: option.splits)

subsection \<open>Dates and months of the scenarios\<close>

text \<open>The calendar on some days: the epoch, leap days, the turn of a century, and
  \<^verbatim>\<open>setMonth\<close> running over the end of a month (31 January plus one month is 3 March
  2025 and 2 March 2024).\<close>

lemma calendar_days:
  "days_from_civil 1970 1 1 = 0" "civil_from_days 0 = (1970, 1, 1)"
  "days_from_civil 2024 2 29 = 19782" "civil_from_days 19782 = (2024, 2, 29)"
  "days_from_civil 2000 2 29 = 11016" "civil_from_days 11016 = (2000, 2, 29)"
  "days_from_civil 1900 3 1 = - 25508" "civil_from_days (- 25508) = (1900, 3, 1)"
  "civil_from_days (setMonth (days_from_civil 2025 1 31) (getMonth (days_from_civil 2025 1 31) + 1))
     = (2025, 3, 3)"
  "civil_from_days (setMonth (days_from_civil 2024 1 31) (getMonth (days_from_civil 2024 1 31) + 1))
     = (2024, 3, 2)"
  "civil_from_days (setMonth (days_from_civil 2025 12 15) (getMonth (days_from_civil 2025 12 15) + 1))
     = (2026, 1, 15)"
  by code_simp+

text \<open>The bounds of \<open>date_range\<close> are the first day of PostgreSQL's calendar and the day
  after its last, 5874897-12-31.\<close>

lemma date_range_bounds:
  "days_from_civil (- 4713) 11 24 = - 2440588" "days_from_civil 5874898 1 1 = 2145042906"
  by code_simp+

lemma retention_months_6_24: "retention_months 6 24 6 = [6, 12, 18]"
  by (simp add: retention_months.simps)

text \<open>Dates of scenario D, evaluated.\<close>

lemma day_2025_01_15: "days_from_civil 2025 1 15 = 20103"
  by code_simp

lemma day_2025_07_14: "days_from_civil 2025 7 14 = 20283"
  by code_simp

lemma day_2025_07_15: "days_from_civil 2025 7 15 = 20284"
  by code_simp

lemma setMonth_2025_01_15_plus_6: "setMonth 20103 (getMonth 20103 + 6) = 20284"
  by code_simp

subsection \<open>Transaction numbers\<close>

lemma LIKE_percent [simp]: "LIKE s ''%''"
  by (induction s) simp_all

lemma LIKE_prefix:
  "wildcard_free pre \<Longrightarrow> LIKE s (pre @ ''%'') = (take (length pre) s = pre)"
proof (induction pre arbitrary: s)
  case Nil
  then show ?case by simp
next
  case (Cons p pre)
  then have "wildcard_free pre" and "p \<noteq> CHR ''%''" and "p \<noteq> CHR ''_''" and "p \<noteq> CHR 0x5C"
    by (simp_all add: wildcard_free_def)
  with Cons.IH show ?case
    by (cases s) auto
qed

lemma generate_transaction_number_eq:
  assumes "v_prefix = ''INV-'' @ TO_CHAR_YYYYMM now @ ''-''
             @ UPPER (LEFT (customer_id NEW) 6) @ ''-''"
  shows "transaction_no (generate_transaction_number db now NEW) =
     Some (v_prefix @ LPAD (int_text (int (length (filter
             (\<lambda>t. case transaction_no t of None \<Rightarrow> False
                       | Some n \<Rightarrow> LIKE n (v_prefix @ ''%''))
             (transactions db))) + 1)) 3 (CHR ''0''))"
  unfolding assms generate_transaction_number_def Let_def
  by (cases NEW) (simp only: transactions_row.simps)

lemma example_prefix:
  "''INV-202501-3F2A9C-'' = ''INV-'' @ TO_CHAR_YYYYMM (2025, 1) @ ''-''
     @ UPPER (LEFT (customer_id new_transaction) 6) @ ''-''"
  by code_simp

lemma wildcard_free_example: "wildcard_free ''INV-202501-3F2A9C-''"
  by (simp add: wildcard_free_def)

lemma count_numbered_transactions:
  "length (filter (\<lambda>t. case transaction_no t of None \<Rightarrow> False
                        | Some n \<Rightarrow> LIKE n (''INV-202501-3F2A9C-'' @ ''%''))
            (numbered_transactions n)) = n"
proof -
  have "\<forall>t \<in> set (numbered_transactions n).
          (case transaction_no t of None \<Rightarrow> False
           | Some n \<Rightarrow> LIKE n (''INV-202501-3F2A9C-'' @ ''%''))"
    unfolding LIKE_prefix [OF wildcard_free_example]
    by (auto simp: numbered_transactions_def)
  then have "filter (\<lambda>t. case transaction_no t of None \<Rightarrow> False
                        | Some n \<Rightarrow> LIKE n (''INV-202501-3F2A9C-'' @ ''%''))
               (numbered_transactions n) = numbered_transactions n"
    by (simp only: filter_True)
  then show ?thesis
    by (simp add: numbered_transactions_def)
qed

lemma text_1000: "LPAD (int_text 1000) 3 (CHR ''0'') = ''100''"
  by code_simp

lemma text_100: "LPAD (int_text 100) 3 (CHR ''0'') = ''100''"
  by code_simp

text \<open>Below 1000 the sequence is the count plus one in three digits, as the claim says,
  when the prefix holds no special character of \<^verbatim>\<open>LIKE\<close> (the text of a UUID does
  not); and a number that is supplied is kept.\<close>

lemma length_nat_text_below_1000: "n < 1000 \<Longrightarrow> length (nat_text n) \<le> 3"
  by (subst nat_text.simps, subst nat_text.simps, subst nat_text.simps) simp

lemma transaction_number_below_1000:
  assumes "transaction_no NEW = None"
    and "v_prefix = ''INV-'' @ TO_CHAR_YYYYMM now @ ''-''
           @ UPPER (LEFT (customer_id NEW) 6) @ ''-''"
    and "wildcard_free v_prefix"
    and "count = length (filter (\<lambda>t. case transaction_no t of None \<Rightarrow> False
                                   | Some n \<Rightarrow> take (length v_prefix) n = v_prefix)
                          (transactions db))"
    and "count + 1 < 1000"
  shows "transaction_no (on_transaction_generate_number db now NEW) =
           Some (v_prefix @ zero_pad 3 (nat_text (count + 1)))"
    and "length (zero_pad 3 (nat_text (count + 1))) = 3"
proof -
  have len: "length (nat_text (count + 1)) \<le> 3"
    using assms(5) by (rule length_nat_text_below_1000)
  then show "length (zero_pad 3 (nat_text (count + 1))) = 3"
    by (simp add: zero_pad_def)
  have "nat (int count + 1) = count + 1"
    by simp
  then have "int_text (int count + 1) = nat_text (count + 1)"
    by (simp add: int_text_def del: One_nat_def add_Suc_right)
  with len have pad:
    "LPAD (int_text (int count + 1)) 3 (CHR ''0'') = zero_pad 3 (nat_text (count + 1))"
    by (simp add: LPAD_def zero_pad_def)
  have "transaction_no (generate_transaction_number db now NEW) =
          Some (v_prefix @ LPAD (int_text (int count + 1)) 3 (CHR ''0''))"
    unfolding generate_transaction_number_eq [OF assms(2)] LIKE_prefix [OF assms(3)] assms(4)
    by (rule refl)
  with assms(1) pad show "transaction_no (on_transaction_generate_number db now NEW) =
           Some (v_prefix @ zero_pad 3 (nat_text (count + 1)))"
    by (simp add: on_transaction_generate_number_def)
qed

lemma supplied_transaction_number_kept:
  "transaction_no NEW = Some n \<Longrightarrow> on_transaction_generate_number db now NEW = NEW"
  by (simp add: on_transaction_generate_number_def)

text \<open>Beyond the range of \<^verbatim>\<open>INT\<close> the trigger raises an error: a lifecycle of
  80000000 months times 30 is not a 32-bit integer.\<close>

lemma trigger_out_of_range:
  "generate_scheduled_service_tasks
     (example_database []
        (example_row 20103 80000000 40000000 (Some default_service_flow_config)))
     (example_row 20103 80000000 40000000 (Some default_service_flow_config))
   = Some (Inl integer_out_of_range)"
proof -
  let ?NEW = "example_row 20103 80000000 40000000 (Some default_service_flow_config)"
  have "retention_while (example_database [] ?NEW) ?NEW default_service_flow_config None
          40000000 80000000 40000000 tasks
        = Some (Inr (tasks @ [retention_task ?NEW 40000000 1200020103 None]))" for tasks
    by (subst retention_while.simps, subst retention_while.simps)
       (simp add: int4mul_def int4pl_def int4_range_def date_pli_def date_range_def
          template_reference_def INSERT_INTO_scheduled_service_tasks_def references_hold_def
          retention_task_def default_service_flow_config_def example_database_def
          example_row_def)
  then show ?thesis
    by (simp add: generate_scheduled_service_tasks_def Let_def COALESCE_def
          onboarding_insert_def onboarding_task_def template_reference_def
          INSERT_INTO_scheduled_service_tasks_def references_hold_def default_template_def
          maturity_insert_def int4mul_def int4_range_def json_enabled_def
          default_service_flow_config_def example_database_def example_row_def)
qed

text \<open>A configured template that has been deleted, or a text that is no UUID, makes the
  trigger raise an error at its first insert: scenario A with the onboarding template
  of \<open>welcome_config\<close> and no such row in \<^verbatim>\<open>message_templates\<close>, and with the text
  \<^verbatim>\<open>not-a-uuid\<close>.\<close>

lemma trigger_template_deleted:
  "generate_scheduled_service_tasks
     (example_database [] (example_row 20103 24 6 (Some welcome_config)))
     (example_row 20103 24 6 (Some welcome_config))
   = Some (Inl foreign_key_violation)"
  by (simp add: generate_scheduled_service_tasks_def Let_def COALESCE_def
        onboarding_insert_def onboarding_task_def template_reference_def uuid_in_texts
        INSERT_INTO_scheduled_service_tasks_def references_hold_def default_template_def
        json_enabled_def welcome_config_def default_service_flow_config_def
        example_database_def example_row_def)

lemma trigger_template_malformed:
  "generate_scheduled_service_tasks
     (example_database [welcome_template]
        (example_row 20103 24 6 (Some malformed_template_config)))
     (example_row 20103 24 6 (Some malformed_template_config))
   = Some (Inl invalid_text_representation)"
  by (simp add: generate_scheduled_service_tasks_def Let_def COALESCE_def
        onboarding_insert_def template_reference_def uuid_in_texts
        json_enabled_def malformed_template_config_def default_service_flow_config_def
        example_row_def)

text \<open>In the last two years of the calendar of PostgreSQL the dates of scenario A leave
  the range of \<^verbatim>\<open>DATE\<close>.\<close>

lemma trigger_date_out_of_range:
  "generate_scheduled_service_tasks
     (example_database [] (example_row 2145042875 24 6 (Some default_service_flow_config)))
     (example_row 2145042875 24 6 (Some default_service_flow_config))
   = Some (Inl date_out_of_range)"
proof -
  let ?NEW = "example_row 2145042875 24 6 (Some default_service_flow_config)"
  have "retention_while (example_database [] ?NEW) ?NEW default_service_flow_config None
          6 24 6 tasks = Some (Inl date_out_of_range)" for tasks
    by (subst retention_while.simps)
       (simp add: int4mul_def int4_range_def date_pli_def date_range_def example_row_def)
  then show ?thesis
    by (simp add: generate_scheduled_service_tasks_def Let_def COALESCE_def
          onboarding_insert_def onboarding_task_def template_reference_def
          INSERT_INTO_scheduled_service_tasks_def references_hold_def default_template_def
          json_enabled_def default_service_flow_config_def example_database_def
          example_row_def)
qed

lemma day_5874897_12_01: "days_from_civil 5874897 12 1 = 2145042875"
  by code_simp

text \<open>The references of the example rows are in place in the example database.\<close>

lemma references_exist_example:
  "references_exist (example_database templates (example_row d l i (Some default_service_flow_config)))
     (example_row d l i (Some default_service_flow_config))"
  "references_exist (example_database templates (example_row d l i (Some onboarding_maturity_config)))
     (example_row d l i (Some onboarding_maturity_config))"
  "references_exist (example_database [welcome_template] (example_row d l i (Some welcome_config)))
     (example_row d l i (Some welcome_config))"
  by (simp_all add: references_exist_def template_exists_def uuid_in_texts COALESCE_def
        welcome_config_def welcome_template_def onboarding_maturity_config_def
        default_service_flow_config_def example_database_def example_row_def)

section \<open>The claims of the specification\<close>

text \<open>
  \<^bold>\<open>C1.\<close> As stated the claim fails, in four ways. With an interval of 0 (lifecycle
  12, the three phases enabled) the trigger inserts nothing, while the preview returns
  the onboarding and the maturity node. In scenario D (anchor 2025-01-15, lifecycle 6,
  interval 3, onboarding and maturity only) both return two touchpoints, but the trigger
  dates the second 2025-07-14 and the preview 2025-07-15. With a lifecycle of 80000000
  months (interval 40000000) the trigger raises \<^verbatim>\<open>integer out of range\<close> and
  materializes nothing. And in scenario A with a message template chosen for onboarding
  that has since been deleted, the trigger violates the foreign key of
  \<^verbatim>\<open>message_template_id\<close> and materializes nothing, while the preview returns five
  nodes.
\<close>

theorem trigger_preview_differ_counterexample:
  "\<not> same_touchpoints iso_date
       (example_database []
          (example_row (days_from_civil 2025 1 15) 12 0 (Some default_service_flow_config)))
       (generate_scheduled_service_tasks
          (example_database []
             (example_row (days_from_civil 2025 1 15) 12 0 (Some default_service_flow_config)))
          (example_row (days_from_civil 2025 1 15) 12 0 (Some default_service_flow_config)))
       (generateTimelineNodes iso_date (example_product 12 0 (Some default_service_flow_config))
          (days_from_civil 2025 1 15))
   \<and> \<not> same_touchpoints iso_date
       (example_database []
          (example_row (days_from_civil 2025 1 15) 6 3 (Some onboarding_maturity_config)))
       (generate_scheduled_service_tasks
          (example_database []
             (example_row (days_from_civil 2025 1 15) 6 3 (Some onboarding_maturity_config)))
          (example_row (days_from_civil 2025 1 15) 6 3 (Some onboarding_maturity_config)))
       (generateTimelineNodes iso_date (example_product 6 3 (Some onboarding_maturity_config))
          (days_from_civil 2025 1 15))
   \<and> \<not> same_touchpoints iso_date
       (example_database []
          (example_row (days_from_civil 2025 1 15) 80000000 40000000
             (Some default_service_flow_config)))
       (generate_scheduled_service_tasks
          (example_database []
             (example_row (days_from_civil 2025 1 15) 80000000 40000000
                (Some default_service_flow_config)))
          (example_row (days_from_civil 2025 1 15) 80000000 40000000
             (Some default_service_flow_config)))
       (generateTimelineNodes iso_date
          (example_product 80000000 40000000 (Some default_service_flow_config))
          (days_from_civil 2025 1 15))
   \<and> \<not> same_touchpoints iso_date
       (example_database [] (example_row (days_from_civil 2025 1 15) 24 6 (Some welcome_config)))
       (generate_scheduled_service_tasks
          (example_database []
             (example_row (days_from_civil 2025 1 15) 24 6 (Some welcome_config)))
          (example_row (days_from_civil 2025 1 15) 24 6 (Some welcome_config)))
       (generateTimelineNodes iso_date (example_product 24 6 (Some welcome_config))
          (days_from_civil 2025 1 15))
   \<and> map phase (preview_nodes iso_date (example_product 24 6 (Some welcome_config))
                   (days_from_civil 2025 1 15))
       = [onboarding_phase, retention_phase, retention_phase, retention_phase, maturity_phase]"
proof -
  let ?row_0 = "example_row 20103 12 0 (Some default_service_flow_config)"
  let ?row_D = "example_row 20103 6 3 (Some onboarding_maturity_config)"
  have "sql_in_range (installation_date ?row_D) (COALESCE (lifecycle_months_snapshot ?row_D) 0)"
    by (simp add: sql_in_range_def date_range_def example_row_def COALESCE_def)
  note trigger_D = generate_scheduled_service_tasks_rows
    [OF this references_exist_example(2) [of "[]" 20103 6 3]]
  have trigger_0: "generate_scheduled_service_tasks (example_database [] ?row_0) ?row_0
      = Some (Inr (example_database [] ?row_0))"
    by (simp add: generate_scheduled_service_tasks_skip example_row_def COALESCE_def)
  have iso: "iso_date 20283 = ''2025-07-14''" "iso_date 20284 = ''2025-07-15''"
    by code_simp+
  have nodes_0: "preview_nodes iso_date (example_product 12 0 (Some default_service_flow_config))
          20103 \<noteq> []"
    by (simp add: preview_nodes_def example_product_def onboarding_nodes_def chain_enabled_def
          default_service_flow_config_def)
  have first: "\<not> same_touchpoints iso_date (example_database [] ?row_0)
       (generate_scheduled_service_tasks (example_database [] ?row_0) ?row_0)
       (generateTimelineNodes iso_date (example_product 12 0 (Some default_service_flow_config))
          20103)"
    using nodes_0
    by (simp add: same_touchpoints_def trigger_0 generateTimelineNodes_nodes)
  have rows_D: "map scheduled_date (scheduled_rows (example_database [] ?row_D) ?row_D)
      = [20103, 20283]"
    by (simp add: scheduled_rows_def Let_def example_row_def json_enabled_def
          onboarding_task_def maturity_task_def COALESCE_def
          onboarding_maturity_config_def default_service_flow_config_def)
  have nodes_D: "map date (preview_nodes iso_date
          (example_product 6 3 (Some onboarding_maturity_config)) 20103)
          = [iso_date 20103, iso_date 20284]"
    by (simp add: preview_nodes_def example_product_def onboarding_nodes_def
          maturity_nodes_def preview_months_def chain_enabled_def
          onboarding_maturity_config_def default_service_flow_config_def
          setMonth_2025_01_15_plus_6)
  have "map (\<lambda>t. (sst_phase t, iso_date (scheduled_date t))) rows \<noteq> map (\<lambda>n. (phase n, date n)) nodes"
    if "map scheduled_date rows = [20103, 20283]" "map date nodes = [iso_date 20103, iso_date 20284]"
    for rows :: "scheduled_service_tasks_row list" and nodes :: "FlowPreviewNode list"
  proof
    assume "map (\<lambda>t. (sst_phase t, iso_date (scheduled_date t))) rows = map (\<lambda>n. (phase n, date n)) nodes"
    then have "map snd (map (\<lambda>t. (sst_phase t, iso_date (scheduled_date t))) rows)
               = map snd (map (\<lambda>n. (phase n, date n)) nodes)"
      by simp
    then have "map iso_date (map scheduled_date rows) = map date nodes"
      by (simp add: comp_def)
    with that show False by (simp add: iso)
  qed
  from this [OF rows_D nodes_D]
  have second: "\<not> same_touchpoints iso_date (example_database [] ?row_D)
       (generate_scheduled_service_tasks (example_database [] ?row_D) ?row_D)
       (generateTimelineNodes iso_date (example_product 6 3 (Some onboarding_maturity_config))
          20103)"
    by (simp add: same_touchpoints_def trigger_D generateTimelineNodes_nodes)
  have third: "\<not> same_touchpoints iso_date
       (example_database []
          (example_row 20103 80000000 40000000 (Some default_service_flow_config)))
       (generate_scheduled_service_tasks
          (example_database []
             (example_row 20103 80000000 40000000 (Some default_service_flow_config)))
          (example_row 20103 80000000 40000000 (Some default_service_flow_config)))
       (generateTimelineNodes iso_date
          (example_product 80000000 40000000 (Some default_service_flow_config)) 20103)"
    by (simp add: same_touchpoints_def trigger_out_of_range)
  have fourth: "\<not> same_touchpoints iso_date
       (example_database [] (example_row 20103 24 6 (Some welcome_config)))
       (generate_scheduled_service_tasks
          (example_database [] (example_row 20103 24 6 (Some welcome_config)))
          (example_row 20103 24 6 (Some welcome_config)))
       (generateTimelineNodes iso_date (example_product 24 6 (Some welcome_config)) 20103)"
    by (simp add: same_touchpoints_def trigger_template_deleted)
  have fifth: "map phase (preview_nodes iso_date (example_product 24 6 (Some welcome_config)) 20103)
       = [onboarding_phase, retention_phase, retention_phase, retention_phase, maturity_phase]"
    by (simp add: preview_nodes_def preview_months_def onboarding_nodes_def maturity_nodes_def
          chain_enabled_def retention_months_6_24 example_product_def welcome_config_def
          default_service_flow_config_def)
  from first second third fourth fifth show ?thesis
    by (simp add: day_2025_01_15)
qed

text \<open>
  \<^bold>\<open>C1, amended.\<close> For the same anchor date, lifecycle, interval and configuration, when
  the interval is above 0, the dates of the schedule are in the range of the database
  and the references of the new rows are in place (the record and its customer exist,
  and a message template that the configuration names for an enabled phase is the
  \<^verbatim>\<open>id\<close> of a template), the trigger and the preview both return, and they produce the
  same number of touchpoints, with the same phases in the same order, at the same month
  offsets. The trigger dates the touchpoint of a node at month \<open>m\<close> thirty times \<open>m\<close>
  days after the anchor; the preview dates the onboarding node at the anchor and every
  other node \<open>m\<close> calendar months after it, by \<^verbatim>\<open>setMonth\<close>.
\<close>

theorem trigger_preview_same_phases:
  assumes "installation_date NEW = start"
    and "lifecycle_months_snapshot NEW = lifecycle_months product"
    and "service_interval_months_snapshot NEW = service_interval_months product"
    and "service_flow_config_snapshot NEW = service_flow_config product"
    and "service_interval_months product = Some interval" and "0 < interval"
    and "sql_in_range start (COALESCE (lifecycle_months product) 0)"
    and "references_exist db NEW"
  shows "\<exists>rows nodes.
           generate_scheduled_service_tasks db NEW =
             Some (Inr (db\<lparr>scheduled_service_tasks := scheduled_service_tasks db @ rows\<rparr>))
         \<and> generateTimelineNodes formatDate product start = Some (Inr nodes)
         \<and> length rows = length nodes
         \<and> map sst_phase rows = map phase nodes
         \<and> map scheduled_date rows = map (\<lambda>n. start + month n * 30) nodes
         \<and> map date nodes =
             map (\<lambda>n. formatDate (if phase n = onboarding_phase then start
                                    else setMonth start (getMonth start + month n))) nodes"
proof -
  have range: "sql_in_range (installation_date NEW) (COALESCE (lifecycle_months_snapshot NEW) 0)"
    using assms(1,2,7) by simp
  note rows = scheduled_rows_preview_nodes [OF assms(1-6), of db formatDate]
  from rows(1) have "length (scheduled_rows db NEW) = length (preview_nodes formatDate product start)"
    by (rule map_eq_imp_length_eq)
  with rows generate_scheduled_service_tasks_rows [OF range assms(8)]
    preview_nodes_dates [of formatDate product start]
  show ?thesis
    by (intro exI [of _ "scheduled_rows db NEW"]
          exI [of _ "preview_nodes formatDate product start"])
       (simp add: generateTimelineNodes_nodes)
qed

theorem trigger_preview_same_phases_witness:
  "\<exists>rows nodes.
     generate_scheduled_service_tasks
       (example_database [welcome_template] (example_row 20103 24 6 (Some welcome_config)))
       (example_row 20103 24 6 (Some welcome_config)) =
       Some (Inr (example_database [welcome_template]
                    (example_row 20103 24 6 (Some welcome_config))
                  \<lparr>scheduled_service_tasks := rows\<rparr>))
   \<and> generateTimelineNodes iso_date (example_product 24 6 (Some welcome_config)) 20103
       = Some (Inr nodes)
   \<and> length rows = length nodes
   \<and> map sst_phase rows = map phase nodes
   \<and> map scheduled_date rows = map (\<lambda>n. 20103 + month n * 30) nodes
   \<and> map date nodes =
       map (\<lambda>n. iso_date (if phase n = onboarding_phase then 20103
                            else setMonth 20103 (getMonth 20103 + month n))) nodes"
  using trigger_preview_same_phases
    [of "example_row 20103 24 6 (Some welcome_config)" 20103
        "example_product 24 6 (Some welcome_config)" 6
        "example_database [welcome_template] (example_row 20103 24 6 (Some welcome_config))"
        iso_date]
    references_exist_example(3) [of 20103 24 6]
  by (simp add: example_product_def example_row_def sql_in_range_def date_range_def
        COALESCE_def example_database_def)

text \<open>
  \<^bold>\<open>C2.\<close> As stated the claim fails for the trigger. With an interval of 0 it returns
  at its first \<^verbatim>\<open>IF\<close> and inserts no onboarding row, although onboarding is enabled
  and the lifecycle is 12 months. With a lifecycle of 80000000 months (interval
  40000000) it raises \<^verbatim>\<open>integer out of range\<close>, so that no row is inserted. And
  when the message template chosen for onboarding has been deleted, or its text is no
  UUID, the insert of the onboarding row raises an error.
\<close>

theorem trigger_skips_onboarding_counterexample:
  "json_enabled (onboarding default_service_flow_config)
   \<and> generate_scheduled_service_tasks
        (example_database []
           (example_row (days_from_civil 2025 1 15) 12 0 (Some default_service_flow_config)))
        (example_row (days_from_civil 2025 1 15) 12 0 (Some default_service_flow_config))
      = Some (Inr (example_database []
           (example_row (days_from_civil 2025 1 15) 12 0 (Some default_service_flow_config))))
   \<and> scheduled_service_tasks
        (example_database []
           (example_row (days_from_civil 2025 1 15) 12 0 (Some default_service_flow_config)))
      = []
   \<and> generate_scheduled_service_tasks
        (example_database []
           (example_row (days_from_civil 2025 1 15) 80000000 40000000
              (Some default_service_flow_config)))
        (example_row (days_from_civil 2025 1 15) 80000000 40000000
           (Some default_service_flow_config))
      = Some (Inl integer_out_of_range)
   \<and> json_enabled (onboarding welcome_config)
   \<and> generate_scheduled_service_tasks
        (example_database []
           (example_row (days_from_civil 2025 1 15) 24 6 (Some welcome_config)))
        (example_row (days_from_civil 2025 1 15) 24 6 (Some welcome_config))
      = Some (Inl foreign_key_violation)
   \<and> json_enabled (onboarding malformed_template_config)
   \<and> generate_scheduled_service_tasks
        (example_database [welcome_template]
           (example_row (days_from_civil 2025 1 15) 24 6 (Some malformed_template_config)))
        (example_row (days_from_civil 2025 1 15) 24 6 (Some malformed_template_config))
      = Some (Inl invalid_text_representation)"
proof -
  have "json_enabled (onboarding default_service_flow_config)"
    "json_enabled (onboarding welcome_config)"
    "json_enabled (onboarding malformed_template_config)"
    by (simp_all add: json_enabled_def default_service_flow_config_def welcome_config_def
          malformed_template_config_def)
  moreover have "generate_scheduled_service_tasks
        (example_database []
           (example_row (days_from_civil 2025 1 15) 12 0 (Some default_service_flow_config)))
        (example_row (days_from_civil 2025 1 15) 12 0 (Some default_service_flow_config))
      = Some (Inr (example_database []
           (example_row (days_from_civil 2025 1 15) 12 0 (Some default_service_flow_config))))"
    by (simp add: generate_scheduled_service_tasks_skip example_row_def COALESCE_def)
  moreover have "scheduled_service_tasks (example_database [] NEW) = []" for NEW
    by (simp add: example_database_def)
  ultimately show ?thesis
    by (simp add: day_2025_01_15 trigger_out_of_range trigger_template_deleted
          trigger_template_malformed)
qed

text \<open>
  \<^bold>\<open>C2, amended.\<close> With onboarding enabled and a lifecycle above 0, the preview returns
  exactly one onboarding node, the first of its list, at month 0, dated at the anchor
  date and labelled with the configured task name or, when that is missing or empty,
  with the default label, for every value of the interval. The trigger inserts exactly
  one onboarding row, the first of its rows, dated at the installation date and named
  by the configured task name or by \<^verbatim>\<open>Install Product\<close>, when the interval is
  above 0, the dates of the schedule are in range and the references of the new rows
  are in place.
\<close>

theorem onboarding_touchpoint:
  "(lifecycle_months product = Some lifecycle \<and> 0 < lifecycle
      \<and> chain_enabled (service_flow_config product) onboarding
    \<longrightarrow> (\<exists>rest. generateTimelineNodes formatDate product start =
                   Some (Inr (\<lparr>month = 0, date = formatDate start, phase = onboarding_phase,
                               action = or_default (config_task_name product onboarding)
                                          label_install,
                               customMessage = None\<rparr> # rest))
            \<and> (\<forall>n \<in> set rest. phase n \<noteq> onboarding_phase)))
   \<and> (lifecycle_months_snapshot NEW = Some v_lifecycle \<and> 0 < v_lifecycle
      \<and> service_interval_months_snapshot NEW = Some v_interval \<and> 0 < v_interval
      \<and> service_flow_config_snapshot NEW = Some v_config \<and> json_enabled (onboarding v_config)
      \<and> sql_in_range (installation_date NEW) v_lifecycle
      \<and> references_exist db NEW
    \<longrightarrow> (\<exists>row rest. generate_scheduled_service_tasks db NEW =
                   Some (Inr (db\<lparr>scheduled_service_tasks :=
                                   scheduled_service_tasks db @ row # rest\<rparr>))
            \<and> sst_phase row = onboarding_phase
            \<and> scheduled_date row = installation_date NEW
            \<and> sst_task_name row =
                COALESCE (Option.bind (onboarding v_config) task_name) ''Install Product''
            \<and> (\<forall>t \<in> set rest. sst_phase t \<noteq> onboarding_phase)))"
proof (intro conjI impI; elim conjE)
  assume product: "lifecycle_months product = Some lifecycle" "0 < lifecycle"
    "chain_enabled (service_flow_config product) onboarding"
  let ?rest = "map (retention_node formatDate start) (preview_months product lifecycle)
               @ maturity_nodes formatDate product lifecycle start"
  have "\<forall>n \<in> set ?rest. phase n \<noteq> onboarding_phase"
    by (auto simp: maturity_nodes_def)
  then show "\<exists>rest. generateTimelineNodes formatDate product start =
              Some (Inr (\<lparr>month = 0, date = formatDate start, phase = onboarding_phase,
                          action = or_default (config_task_name product onboarding) label_install,
                          customMessage = None\<rparr> # rest))
       \<and> (\<forall>n \<in> set rest. phase n \<noteq> onboarding_phase)"
    using product
    by (intro exI [of _ ?rest])
       (simp add: generateTimelineNodes_nodes preview_nodes_def onboarding_nodes_def)
next
  assume row: "lifecycle_months_snapshot NEW = Some v_lifecycle" "0 < v_lifecycle"
    "service_interval_months_snapshot NEW = Some v_interval" "0 < v_interval"
    "service_flow_config_snapshot NEW = Some v_config" "json_enabled (onboarding v_config)"
    and in_range: "sql_in_range (installation_date NEW) v_lifecycle"
    and refs: "references_exist db NEW"
  have range: "sql_in_range (installation_date NEW) (COALESCE (lifecycle_months_snapshot NEW) 0)"
    using row(1) in_range by (simp add: COALESCE_def)
  let ?row = "onboarding_task NEW v_config (row_template db (onboarding v_config) onboarding_phase)"
  let ?rest = "map (\<lambda>m. retention_task NEW m (installation_date NEW + m * 30)
                          (row_template db (retention v_config) retention_phase))
                    (if json_enabled (retention v_config)
                     then retention_months v_interval v_lifecycle v_interval else [])
               @ (if json_enabled (maturity v_config)
                  then [maturity_task NEW v_config (installation_date NEW + v_lifecycle * 30)
                          (row_template db (maturity v_config) maturity_phase)]
                  else [])"
  have rows: "scheduled_rows db NEW = ?row # ?rest"
    using row by (simp add: scheduled_rows_def COALESCE_def)
  have "\<forall>t \<in> set ?rest. sst_phase t \<noteq> onboarding_phase"
    by (auto simp: maturity_task_def)
  with generate_scheduled_service_tasks_rows [OF range refs] rows
  show "\<exists>row rest. generate_scheduled_service_tasks db NEW =
                   Some (Inr (db\<lparr>scheduled_service_tasks :=
                                   scheduled_service_tasks db @ row # rest\<rparr>))
            \<and> sst_phase row = onboarding_phase
            \<and> scheduled_date row = installation_date NEW
            \<and> sst_task_name row =
                COALESCE (Option.bind (onboarding v_config) task_name) ''Install Product''
            \<and> (\<forall>t \<in> set rest. sst_phase t \<noteq> onboarding_phase)"
    by (intro exI [of _ ?row] exI [of _ ?rest]) (simp add: onboarding_task_def)
qed

theorem onboarding_touchpoint_witness:
  "(\<exists>rest. generateTimelineNodes iso_date
             (example_product 90000000 0 (Some default_service_flow_config)) 20103 =
             Some (Inr (\<lparr>month = 0, date = iso_date 20103, phase = onboarding_phase,
                         action = ''Install Product'', customMessage = None\<rparr> # rest))
      \<and> (\<forall>n \<in> set rest. phase n \<noteq> onboarding_phase))
   \<and> (\<exists>row rest. generate_scheduled_service_tasks
                    (example_database [welcome_template]
                       (example_row 20103 12 6 (Some welcome_config)))
                    (example_row 20103 12 6 (Some welcome_config)) =
                    Some (Inr (example_database [welcome_template]
                                 (example_row 20103 12 6 (Some welcome_config))
                               \<lparr>scheduled_service_tasks := row # rest\<rparr>))
      \<and> sst_phase row = onboarding_phase
      \<and> scheduled_date row = 20103
      \<and> sst_task_name row = ''Install Product''
      \<and> (\<forall>t \<in> set rest. sst_phase t \<noteq> onboarding_phase))"
  using onboarding_touchpoint
    [of "example_product 90000000 0 (Some default_service_flow_config)" 90000000
        iso_date 20103
        "example_row 20103 12 6 (Some welcome_config)" 12 6 welcome_config
        "example_database [welcome_template] (example_row 20103 12 6 (Some welcome_config))"]
    references_exist_example(3) [of 20103 12 6]
  by (simp add: example_product_def example_row_def default_service_flow_config_def
        welcome_config_def
        chain_enabled_def json_enabled_def sql_in_range_def date_range_def example_database_def
        config_task_name_def or_default_def COALESCE_def)

text \<open>
  \<^bold>\<open>C3.\<close> As stated the claim fails for the trigger in scenario A (lifecycle 24,
  interval 6, the three phases enabled): when the message template chosen for
  onboarding has been deleted, the first insert violates the foreign key of
  \<^verbatim>\<open>message_template_id\<close>; when the text of that template is no UUID, the cast
  raises an error; and for an installation date in December 5874897, the last month of
  the calendar of the database, the date of the first retention row is out of range.
  In each case the trigger inserts no row.
\<close>

theorem scenario_A_trigger_error_counterexample:
  "json_enabled (onboarding welcome_config) \<and> json_enabled (retention welcome_config)
   \<and> json_enabled (maturity welcome_config)
   \<and> generate_scheduled_service_tasks
        (example_database []
           (example_row (days_from_civil 2025 1 15) 24 6 (Some welcome_config)))
        (example_row (days_from_civil 2025 1 15) 24 6 (Some welcome_config))
      = Some (Inl foreign_key_violation)
   \<and> json_enabled (onboarding malformed_template_config)
   \<and> json_enabled (retention malformed_template_config)
   \<and> json_enabled (maturity malformed_template_config)
   \<and> generate_scheduled_service_tasks
        (example_database [welcome_template]
           (example_row (days_from_civil 2025 1 15) 24 6 (Some malformed_template_config)))
        (example_row (days_from_civil 2025 1 15) 24 6 (Some malformed_template_config))
      = Some (Inl invalid_text_representation)
   \<and> json_enabled (onboarding default_service_flow_config)
   \<and> json_enabled (retention default_service_flow_config)
   \<and> json_enabled (maturity default_service_flow_config)
   \<and> generate_scheduled_service_tasks
        (example_database []
           (example_row (days_from_civil 5874897 12 1) 24 6 (Some default_service_flow_config)))
        (example_row (days_from_civil 5874897 12 1) 24 6 (Some default_service_flow_config))
      = Some (Inl date_out_of_range)"
proof -
  have "json_enabled (onboarding welcome_config) \<and> json_enabled (retention welcome_config)
      \<and> json_enabled (maturity welcome_config)"
    "json_enabled (onboarding malformed_template_config)
      \<and> json_enabled (retention malformed_template_config)
      \<and> json_enabled (maturity malformed_template_config)"
    "json_enabled (onboarding default_service_flow_config)
      \<and> json_enabled (retention default_service_flow_config)
      \<and> json_enabled (maturity default_service_flow_config)"
    by (simp_all add: json_enabled_def default_service_flow_config_def welcome_config_def
          malformed_template_config_def)
  then show ?thesis
    by (simp add: day_2025_01_15 day_5874897_12_01 trigger_template_deleted
          trigger_template_malformed trigger_date_out_of_range)
qed

text \<open>
  \<^bold>\<open>C3, amended.\<close> Scenario A: with a lifecycle of 24 months, an interval of 6 months
  and the three phases enabled, the preview returns five nodes, at months 0, 6, 12, 18
  and 24, with the phases onboarding, retention (three times), maturity in that order.
  The trigger inserts five rows with the same phases in the same order, dated thirty
  days per month of those offsets after the installation date, when the installation
  date and the day 720 days after it are dates of the database (any date before the
  year 5874896) and the references of the new rows are in place: the record and its
  customer exist, and a message template that the configuration names is the \<^verbatim>\<open>id\<close>
  of a template.
\<close>

theorem scenario_A_five_touchpoints:
  "(json_enabled (onboarding cfg) \<and> json_enabled (retention cfg) \<and> json_enabled (maturity cfg)
      \<and> lifecycle_months product = Some 24 \<and> service_interval_months product = Some 6
      \<and> service_flow_config product = Some cfg
    \<longrightarrow> (\<exists>nodes. generateTimelineNodes formatDate product start = Some (Inr nodes)
            \<and> map month nodes = [0, 6, 12, 18, 24]
            \<and> map phase nodes = [onboarding_phase, retention_phase, retention_phase,
                                  retention_phase, maturity_phase]))
   \<and> (json_enabled (onboarding v_config) \<and> json_enabled (retention v_config)
      \<and> json_enabled (maturity v_config)
      \<and> lifecycle_months_snapshot NEW = Some 24
      \<and> service_interval_months_snapshot NEW = Some 6
      \<and> service_flow_config_snapshot NEW = Some v_config
      \<and> date_range (installation_date NEW) \<and> date_range (installation_date NEW + 720)
      \<and> references_exist db NEW
    \<longrightarrow> (\<exists>rows. generate_scheduled_service_tasks db NEW =
                     Some (Inr (db\<lparr>scheduled_service_tasks := scheduled_service_tasks db @ rows\<rparr>))
            \<and> map sst_phase rows = [onboarding_phase, retention_phase, retention_phase,
                                     retention_phase, maturity_phase]
            \<and> map scheduled_date rows =
                map (\<lambda>m. installation_date NEW + m * 30) [0, 6, 12, 18, 24]))"
proof (intro conjI impI; elim conjE)
  assume product: "json_enabled (onboarding cfg)" "json_enabled (retention cfg)"
    "json_enabled (maturity cfg)" "lifecycle_months product = Some 24"
    "service_interval_months product = Some 6" "service_flow_config product = Some cfg"
  have "map month (preview_nodes formatDate product start) = [0, 6, 12, 18, 24]"
    and "map phase (preview_nodes formatDate product start) =
           [onboarding_phase, retention_phase, retention_phase, retention_phase, maturity_phase]"
    using product
    by (simp_all add: preview_nodes_def preview_months_def onboarding_nodes_def
          maturity_nodes_def chain_enabled_Some retention_months_6_24)
  then show "\<exists>nodes. generateTimelineNodes formatDate product start = Some (Inr nodes)
      \<and> map month nodes = [0, 6, 12, 18, 24]
      \<and> map phase nodes = [onboarding_phase, retention_phase, retention_phase,
                            retention_phase, maturity_phase]"
    by (simp add: generateTimelineNodes_nodes)
next
  assume row: "json_enabled (onboarding v_config)" "json_enabled (retention v_config)"
    "json_enabled (maturity v_config)" "lifecycle_months_snapshot NEW = Some 24"
    "service_interval_months_snapshot NEW = Some 6"
    "service_flow_config_snapshot NEW = Some v_config"
    and dates: "date_range (installation_date NEW)" "date_range (installation_date NEW + 720)"
    and refs: "references_exist db NEW"
  have range: "sql_in_range (installation_date NEW) (COALESCE (lifecycle_months_snapshot NEW) 0)"
    using row(4) dates by (simp add: sql_in_range_def COALESCE_def)
  have "map sst_phase (scheduled_rows db NEW) =
          [onboarding_phase, retention_phase, retention_phase, retention_phase, maturity_phase]"
    and "map scheduled_date (scheduled_rows db NEW) =
          map (\<lambda>m. installation_date NEW + m * 30) [0, 6, 12, 18, 24]"
    using row
    by (simp_all add: scheduled_rows_def COALESCE_def onboarding_task_def maturity_task_def
          retention_months_6_24)
  with generate_scheduled_service_tasks_rows [OF range refs]
  show "\<exists>rows. generate_scheduled_service_tasks db NEW =
                 Some (Inr (db\<lparr>scheduled_service_tasks := scheduled_service_tasks db @ rows\<rparr>))
      \<and> map sst_phase rows = [onboarding_phase, retention_phase, retention_phase,
                               retention_phase, maturity_phase]
      \<and> map scheduled_date rows = map (\<lambda>m. installation_date NEW + m * 30) [0, 6, 12, 18, 24]"
    by (intro exI [of _ "scheduled_rows db NEW"]) simp
qed

theorem scenario_A_five_touchpoints_witness:
  "(\<exists>nodes. generateTimelineNodes iso_date
              (example_product 24 6 (Some default_service_flow_config))
              (days_from_civil 2025 1 15) = Some (Inr nodes)
            \<and> map month nodes = [0, 6, 12, 18, 24]
            \<and> map phase nodes = [onboarding_phase, retention_phase, retention_phase,
                                  retention_phase, maturity_phase])
   \<and> (\<exists>rows. generate_scheduled_service_tasks
                 (example_database [welcome_template]
                    (example_row 20103 24 6 (Some welcome_config)))
                 (example_row 20103 24 6 (Some welcome_config)) =
                 Some (Inr (example_database [welcome_template]
                              (example_row 20103 24 6 (Some welcome_config))
                            \<lparr>scheduled_service_tasks := rows\<rparr>))
            \<and> map sst_phase rows = [onboarding_phase, retention_phase, retention_phase,
                                     retention_phase, maturity_phase]
            \<and> map scheduled_date rows = [20103, 20283, 20463, 20643, 20823])"
  using scenario_A_five_touchpoints
    [of default_service_flow_config "example_product 24 6 (Some default_service_flow_config)"
        iso_date "days_from_civil 2025 1 15"
        welcome_config "example_row 20103 24 6 (Some welcome_config)"
        "example_database [welcome_template] (example_row 20103 24 6 (Some welcome_config))"]
    references_exist_example(3) [of 20103 24 6]
  by (simp add: example_product_def example_row_def default_service_flow_config_def
        welcome_config_def json_enabled_def date_range_def example_database_def)

text \<open>
  \<^bold>\<open>C4.\<close> As stated the claim fails for the trigger, which adds thirty days per month:
  in scenario D (anchor 2025-01-15, lifecycle 6, interval 3, onboarding and maturity
  only) its maturity row is dated 180 days after the anchor, 2025-07-14, not 2025-07-15.
\<close>

theorem trigger_thirty_day_months_counterexample:
  "generate_scheduled_service_tasks
     (example_database []
        (example_row (days_from_civil 2025 1 15) 6 3 (Some onboarding_maturity_config)))
     (example_row (days_from_civil 2025 1 15) 6 3 (Some onboarding_maturity_config))
   = Some (Inr (example_database []
                  (example_row (days_from_civil 2025 1 15) 6 3 (Some onboarding_maturity_config))
      \<lparr>scheduled_service_tasks :=
        [\<lparr>customer_product_id = ''cp-1'',
          sst_customer_id = Some ''3f2a9c1e-0000-4000-8000-000000000001'',
          sst_phase = onboarding_phase, scheduled_date = days_from_civil 2025 1 15,
          sst_task_name = ''Install Product'', sst_message_template_id = None,
          sst_status = ''pending''\<rparr>,
         \<lparr>customer_product_id = ''cp-1'',
          sst_customer_id = Some ''3f2a9c1e-0000-4000-8000-000000000001'',
          sst_phase = maturity_phase, scheduled_date = days_from_civil 2025 7 14,
          sst_task_name = ''Call for MA Renewal'', sst_message_template_id = None,
          sst_status = ''pending''\<rparr>]\<rparr>))
   \<and> days_from_civil 2025 7 14 = days_from_civil 2025 1 15 + 180
   \<and> days_from_civil 2025 7 14 \<noteq> days_from_civil 2025 7 15"
proof -
  let ?NEW = "example_row 20103 6 3 (Some onboarding_maturity_config)"
  have range: "sql_in_range (installation_date ?NEW) (COALESCE (lifecycle_months_snapshot ?NEW) 0)"
    by (simp add: sql_in_range_def date_range_def example_row_def COALESCE_def)
  have rows: "scheduled_rows (example_database [] ?NEW) ?NEW =
        [\<lparr>customer_product_id = ''cp-1'',
          sst_customer_id = Some ''3f2a9c1e-0000-4000-8000-000000000001'',
          sst_phase = onboarding_phase, scheduled_date = 20103,
          sst_task_name = ''Install Product'', sst_message_template_id = None,
          sst_status = ''pending''\<rparr>,
         \<lparr>customer_product_id = ''cp-1'',
          sst_customer_id = Some ''3f2a9c1e-0000-4000-8000-000000000001'',
          sst_phase = maturity_phase, scheduled_date = 20283,
          sst_task_name = ''Call for MA Renewal'', sst_message_template_id = None,
          sst_status = ''pending''\<rparr>]"
    by (simp add: scheduled_rows_def Let_def example_row_def COALESCE_def onboarding_task_def
          maturity_task_def json_enabled_def row_template_def template_reference_def
          onboarding_maturity_config_def default_service_flow_config_def default_template_def
          example_database_def)
  have "scheduled_service_tasks (example_database [] ?NEW) = []"
    by (simp add: example_database_def)
  with generate_scheduled_service_tasks_rows
         [OF range references_exist_example(2) [of "[]" 20103 6 3]] rows
  show ?thesis
    by (simp add: day_2025_01_15 day_2025_07_14 day_2025_07_15)
qed

text \<open>
  \<^bold>\<open>C4, amended.\<close> The preview computes its node dates by calendar-month addition: in
  scenario D it returns a node at month 0 dated 2025-01-15 and a node at month 6 dated
  2025-07-15, which is not the anchor plus 180 days. (The trigger dates its rows by
  thirty-day months, as the counterexample shows.)
\<close>

theorem preview_calendar_months:
  assumes "lifecycle_months product = Some 6" and "service_interval_months product = Some 3"
    and "chain_enabled (service_flow_config product) onboarding"
    and "\<not> chain_enabled (service_flow_config product) retention"
    and "chain_enabled (service_flow_config product) maturity"
  shows "generateTimelineNodes formatDate product (days_from_civil 2025 1 15) =
           Some (Inr [\<lparr>month = 0, date = formatDate (days_from_civil 2025 1 15),
                       phase = onboarding_phase,
                       action = or_default (config_task_name product onboarding) label_install,
                       customMessage = None\<rparr>,
                      \<lparr>month = 6, date = formatDate (days_from_civil 2025 7 15),
                       phase = maturity_phase,
                       action = or_default (config_task_name product maturity) label_renew,
                       customMessage = None\<rparr>])
       \<and> days_from_civil 2025 7 15 \<noteq> days_from_civil 2025 1 15 + 180"
  using assms
  by (simp add: generateTimelineNodes_nodes preview_nodes_def onboarding_nodes_def
        maturity_nodes_def preview_months_def day_2025_01_15 day_2025_07_15
        setMonth_2025_01_15_plus_6)

theorem preview_calendar_months_witness:
  "generateTimelineNodes iso_date (example_product 6 3 (Some onboarding_maturity_config))
     (days_from_civil 2025 1 15) =
     Some (Inr [\<lparr>month = 0, date = ''2025-01-15'', phase = onboarding_phase,
                 action = ''Install Product'', customMessage = None\<rparr>,
                \<lparr>month = 6, date = ''2025-07-15'', phase = maturity_phase,
                 action = ''Call for MA Renewal'', customMessage = None\<rparr>])"
proof -
  have "iso_date (days_from_civil 2025 1 15) = ''2025-01-15''"
    and "iso_date (days_from_civil 2025 7 15) = ''2025-07-15''"
    by code_simp+
  with preview_calendar_months
         [of "example_product 6 3 (Some onboarding_maturity_config)" iso_date]
  show ?thesis
    by (simp add: example_product_def onboarding_maturity_config_def
          default_service_flow_config_def chain_enabled_def config_task_name_def or_default_def)
qed

text \<open>
  \<^bold>\<open>C5.\<close> With an interval of 0 and the retention phase enabled, both generators return,
  their retention loops are not entered, and the output has no retention touchpoint:
  the preview returns a list without a retention node, its retention block hands the
  list on as it is, and the trigger returns with the database unchanged.
\<close>

theorem interval_zero_returns_without_retention:
  assumes "service_interval_months product = Some 0"
    and "chain_enabled (service_flow_config product) retention"
    and "service_interval_months_snapshot NEW = Some 0"
    and "json_enabled (retention (COALESCE (service_flow_config_snapshot NEW) empty_jsonb))"
  shows "(\<exists>nodes. generateTimelineNodes formatDate product start = Some (Inr nodes)
            \<and> (\<forall>n \<in> set nodes. phase n \<noteq> retention_phase))
       \<and> (\<forall>lifecycle nodes.
            retention_block formatDate product lifecycle start nodes = Some nodes)
       \<and> generate_scheduled_service_tasks db NEW = Some (Inr db)"
proof -
  have months: "preview_months product lifecycle = []" for lifecycle
    using assms(1) by (simp add: preview_months_def retention_months_nonpos)
  have "\<forall>n \<in> set (preview_nodes formatDate product start). phase n \<noteq> retention_phase"
    by (auto simp: preview_nodes_def months onboarding_nodes_def maturity_nodes_def
          split: option.splits if_splits)
  moreover have "retention_block formatDate product lifecycle start nodes = Some nodes"
    for lifecycle nodes
    using assms(1) by (simp add: retention_block_def)
  moreover have "generate_scheduled_service_tasks db NEW = Some (Inr db)"
    using assms(3) by (simp add: generate_scheduled_service_tasks_skip COALESCE_def)
  ultimately show ?thesis
    by (simp add: generateTimelineNodes_nodes)
qed

theorem interval_zero_returns_without_retention_witness:
  "(\<exists>nodes. generateTimelineNodes iso_date
              (example_product 12 0 (Some default_service_flow_config))
              (days_from_civil 2025 1 15) = Some (Inr nodes)
            \<and> (\<forall>n \<in> set nodes. phase n \<noteq> retention_phase))
   \<and> (\<forall>lifecycle nodes.
        retention_block iso_date (example_product 12 0 (Some default_service_flow_config))
          lifecycle (days_from_civil 2025 1 15) nodes = Some nodes)
   \<and> generate_scheduled_service_tasks empty_database
        (example_row (days_from_civil 2025 1 15) 12 0 (Some default_service_flow_config))
      = Some (Inr empty_database)"
  using interval_zero_returns_without_retention
    [of "example_product 12 0 (Some default_service_flow_config)"
        "example_row (days_from_civil 2025 1 15) 12 0 (Some default_service_flow_config)"
        iso_date "days_from_civil 2025 1 15" empty_database]
  by (simp add: example_product_def example_row_def default_service_flow_config_def
        chain_enabled_def json_enabled_def COALESCE_def)

text \<open>
  \<^bold>\<open>C6.\<close> When the purchase of a tangible product has created its Customer-Product
  record, the record holds the product's flow configuration, lifecycle and interval of
  that moment. A later edit of any product leaves \<^verbatim>\<open>customer_products\<close>, and so the
  stored snapshot, and the materialized rows of \<^verbatim>\<open>scheduled_service_tasks\<close> as they
  are, and the schedule generation for a record does not read \<^verbatim>\<open>products\<close>: run after
  the edit, it inserts what it inserts before the edit.
\<close>

theorem snapshot_unchanged_by_product_edit:
  assumes "auto_create_customer_product_v2 db today new_id NEW = Some (Inr db')"
    and "products db (ti_product_id NEW) = Some p"
    and "product_type p = Some ''tangible'' \<or> product_type p = None"
  shows "(\<exists>row. customer_products (update_product pid f db') = customer_products db @ [row]
            \<and> service_flow_config_snapshot row = service_flow_config p
            \<and> lifecycle_months_snapshot row = lifecycle_months p
            \<and> service_interval_months_snapshot row = service_interval_months p)
       \<and> customer_products (update_product pid f db') = customer_products db'
       \<and> scheduled_service_tasks (update_product pid f db') = scheduled_service_tasks db'
       \<and> (\<forall>row. generate_scheduled_service_tasks (update_product pid f db') row =
                  map_option (map_sum id (update_product pid f))
                    (generate_scheduled_service_tasks db' row))"
proof -
  have frame: "customer_products (update_product pid f db') = customer_products db'"
    "scheduled_service_tasks (update_product pid f db') = scheduled_service_tasks db'"
    by (simp_all add: update_product_def)
  have "generate_scheduled_service_tasks (update_product pid f db') row =
          map_option (map_sum id (update_product pid f)) (generate_scheduled_service_tasks db' row)"
    for row
  proof (cases "generate_scheduled_service_tasks db' row")
    case None
    then show ?thesis
      by (simp add: update_product_def generate_scheduled_service_tasks_products)
  next
    case (Some r)
    show ?thesis
    proof (cases r)
      case (Inl e)
      with Some show ?thesis
        by (simp add: update_product_def generate_scheduled_service_tasks_products)
    next
      case (Inr d)
      with Some have "products d = products db'"
        by (simp add: generate_scheduled_service_tasks_other_tables(2))
      with Some Inr show ?thesis
        by (simp add: update_product_def generate_scheduled_service_tasks_products)
    qed
  qed
  with frame auto_create_customer_product_v2_row [OF assms] show ?thesis
    by auto
qed

theorem snapshot_unchanged_by_product_edit_witness:
  "\<exists>db'. auto_create_customer_product_v2
            (example_shop (example_product 24 6 (Some default_service_flow_config)))
            20103 ''cp-1'' (example_item ''p-1'') = Some (Inr db')
      \<and> (\<exists>row. customer_products
                  (update_product ''p-1'' (\<lambda>p. p\<lparr>lifecycle_months := Some 36,
                                                   service_interval_months := Some 4,
                                                   service_flow_config := None\<rparr>) db') = [row]
            \<and> service_flow_config_snapshot row = Some default_service_flow_config
            \<and> lifecycle_months_snapshot row = Some 24
            \<and> service_interval_months_snapshot row = Some 6)"
proof -
  let ?db = "example_shop (example_product 24 6 (Some default_service_flow_config))"
  let ?row = "\<lparr>cp_id = ''cp-1'',
      cp_customer_id = Some ''3f2a9c1e-0000-4000-8000-000000000001'',
      cp_product_id = ''p-1'', cp_transaction_id = ''t-1'', cp_transaction_item_id = ''i-1'',
      cp_quantity = 1, installation_date = 20103, warranty_end_date = 20823,
      next_service_date = 20283, cp_status = ''active'',
      service_flow_config_snapshot = Some default_service_flow_config,
      lifecycle_months_snapshot = Some 24, service_interval_months_snapshot = Some 6\<rparr>"
  have range: "sql_in_range (installation_date ?row) (COALESCE (lifecycle_months_snapshot ?row) 0)"
    by (simp add: sql_in_range_def date_range_def COALESCE_def)
  have refs: "references_exist (?db\<lparr>customer_products := customer_products ?db @ [?row]\<rparr>) ?row"
    by (simp add: references_exist_def template_exists_def COALESCE_def example_shop_def
          default_service_flow_config_def)
  obtain db' where created:
    "auto_create_customer_product_v2 ?db 20103 ''cp-1'' (example_item ''p-1'') = Some (Inr db')"
    using generate_scheduled_service_tasks_rows [OF range refs]
    by (simp add: auto_create_customer_product_v2_def Let_def example_shop_def example_item_def
          example_product_def COALESCE_def int4mul_def int4_range_def date_pli_def date_range_def)
  have product: "products ?db (ti_product_id (example_item ''p-1'')) =
      Some (example_product 24 6 (Some default_service_flow_config))"
    by (simp add: example_shop_def example_item_def)
  have tangible: "product_type (example_product 24 6 (Some default_service_flow_config)) =
      Some ''tangible'' \<or> product_type (example_product 24 6 (Some default_service_flow_config)) = None"
    by (simp add: example_product_def)
  from snapshot_unchanged_by_product_edit
         [OF created product tangible, THEN conjunct1, of "''p-1''"
            "\<lambda>p. p\<lparr>lifecycle_months := Some 36, service_interval_months := Some 4,
                     service_flow_config := None\<rparr>"]
  have "\<exists>row. customer_products
            (update_product ''p-1'' (\<lambda>p. p\<lparr>lifecycle_months := Some 36,
                                             service_interval_months := Some 4,
                                             service_flow_config := None\<rparr>) db') = [row]
      \<and> service_flow_config_snapshot row = Some default_service_flow_config
      \<and> lifecycle_months_snapshot row = Some 24
      \<and> service_interval_months_snapshot row = Some 6"
    by (simp add: example_shop_def example_item_def example_product_def)
  with created show ?thesis by blast
qed

text \<open>
  \<^bold>\<open>C7.\<close> As stated the claim fails: for a line item whose product is not in
  \<^verbatim>\<open>products\<close>, neither variant of the snapshot capture raises an error; each inserts
  a Customer-Product record whose three snapshot columns are \<^verbatim>\<open>NULL\<close>.
\<close>

theorem missing_product_blank_snapshot_counterexample:
  "auto_create_customer_product_v2
     (example_shop (example_product 24 6 (Some default_service_flow_config)))
     20103 ''cp-1'' (example_item ''p-gone'')
   = Some (Inr (example_shop (example_product 24 6 (Some default_service_flow_config))
        \<lparr>customer_products :=
           [\<lparr>cp_id = ''cp-1'',
             cp_customer_id = Some ''3f2a9c1e-0000-4000-8000-000000000001'',
             cp_product_id = ''p-gone'', cp_transaction_id = ''t-1'',
             cp_transaction_item_id = ''i-1'', cp_quantity = 1,
             installation_date = 20103, warranty_end_date = 20468,
             next_service_date = 20283, cp_status = ''active'',
             service_flow_config_snapshot = None, lifecycle_months_snapshot = None,
             service_interval_months_snapshot = None\<rparr>]\<rparr>))
   \<and> auto_create_customer_product
     (example_shop (example_product 24 6 (Some default_service_flow_config)))
     20103 ''cp-1'' (example_item ''p-gone'')
   = Some (Inr (example_shop (example_product 24 6 (Some default_service_flow_config))
        \<lparr>customer_products :=
           [\<lparr>cp_id = ''cp-1'',
             cp_customer_id = Some ''3f2a9c1e-0000-4000-8000-000000000001'',
             cp_product_id = ''p-gone'', cp_transaction_id = ''t-1'',
             cp_transaction_item_id = ''i-1'', cp_quantity = 1,
             installation_date = 20103, warranty_end_date = 20468,
             next_service_date = 20133, cp_status = ''active'',
             service_flow_config_snapshot = None, lifecycle_months_snapshot = None,
             service_interval_months_snapshot = None\<rparr>]\<rparr>))"
  by (simp add: auto_create_customer_product_v2_def auto_create_customer_product_def Let_def
        example_shop_def example_item_def
        COALESCE_def int4mul_def int4_range_def date_pli_def date_range_def
        generate_scheduled_service_tasks_skip)

text \<open>
  \<^bold>\<open>C7, amended.\<close> When the product of a line item is not in \<^verbatim>\<open>products\<close>, and the
  installation date and the day 365 days after it are dates of the database, the
  snapshot capture raises no error: it inserts one Customer-Product record with the
  three snapshot columns \<^verbatim>\<open>NULL\<close> and a warranty end 365 days after the installation
  date, and schedules no task. The next service date is 180 days after the installation
  date in \<^verbatim>\<open>auto_create_customer_product_v2\<close> and 30 days after it in
  \<^verbatim>\<open>auto_create_customer_product\<close>, whose installation date is the current date.
\<close>

theorem missing_product_creates_blank_snapshot:
  assumes "products db (ti_product_id NEW) = None"
    and "date_range (COALESCE (service_start_date NEW) today)"
    and "date_range (COALESCE (service_start_date NEW) today + 365)"
    and "date_range today" and "date_range (today + 365)"
  shows "auto_create_customer_product_v2 db today new_id NEW =
     Some (Inr (db\<lparr>customer_products := customer_products db @
        [\<lparr>cp_id = new_id,
          cp_customer_id =
            map_option customer_id (find (\<lambda>t. t_id t = ti_transaction_id NEW) (transactions db)),
          cp_product_id = ti_product_id NEW, cp_transaction_id = ti_transaction_id NEW,
          cp_transaction_item_id = ti_id NEW, cp_quantity = ti_quantity NEW,
          installation_date = COALESCE (service_start_date NEW) today,
          warranty_end_date = COALESCE (service_start_date NEW) today + 365,
          next_service_date = COALESCE (service_start_date NEW) today + 180,
          cp_status = ''active'',
          service_flow_config_snapshot = None, lifecycle_months_snapshot = None,
          service_interval_months_snapshot = None\<rparr>]\<rparr>))
   \<and> auto_create_customer_product db today new_id NEW =
     Some (Inr (db\<lparr>customer_products := customer_products db @
        [\<lparr>cp_id = new_id,
          cp_customer_id =
            map_option customer_id (find (\<lambda>t. t_id t = ti_transaction_id NEW) (transactions db)),
          cp_product_id = ti_product_id NEW, cp_transaction_id = ti_transaction_id NEW,
          cp_transaction_item_id = ti_id NEW, cp_quantity = ti_quantity NEW,
          installation_date = today,
          warranty_end_date = today + 365,
          next_service_date = today + 30,
          cp_status = ''active'',
          service_flow_config_snapshot = None, lifecycle_months_snapshot = None,
          service_interval_months_snapshot = None\<rparr>]\<rparr>))"
proof -
  from assms(2,3) have "date_range (COALESCE (service_start_date NEW) today + 180)"
    by (simp add: date_range_def)
  with assms(1-3) have v2: "auto_create_customer_product_v2 db today new_id NEW =
     Some (Inr (db\<lparr>customer_products := customer_products db @
        [\<lparr>cp_id = new_id,
          cp_customer_id =
            map_option customer_id (find (\<lambda>t. t_id t = ti_transaction_id NEW) (transactions db)),
          cp_product_id = ti_product_id NEW, cp_transaction_id = ti_transaction_id NEW,
          cp_transaction_item_id = ti_id NEW, cp_quantity = ti_quantity NEW,
          installation_date = COALESCE (service_start_date NEW) today,
          warranty_end_date = COALESCE (service_start_date NEW) today + 365,
          next_service_date = COALESCE (service_start_date NEW) today + 180,
          cp_status = ''active'',
          service_flow_config_snapshot = None, lifecycle_months_snapshot = None,
          service_interval_months_snapshot = None\<rparr>]\<rparr>))"
    by (simp add: auto_create_customer_product_v2_def Let_def COALESCE_def [of None]
          int4mul_def int4_range_def date_pli_def generate_scheduled_service_tasks_skip)
  from assms(4,5) have "date_range (today + 30)"
    by (simp add: date_range_def)
  with assms(1,4,5) have "auto_create_customer_product db today new_id NEW =
     Some (Inr (db\<lparr>customer_products := customer_products db @
        [\<lparr>cp_id = new_id,
          cp_customer_id =
            map_option customer_id (find (\<lambda>t. t_id t = ti_transaction_id NEW) (transactions db)),
          cp_product_id = ti_product_id NEW, cp_transaction_id = ti_transaction_id NEW,
          cp_transaction_item_id = ti_id NEW, cp_quantity = ti_quantity NEW,
          installation_date = today,
          warranty_end_date = today + 365,
          next_service_date = today + 30,
          cp_status = ''active'',
          service_flow_config_snapshot = None, lifecycle_months_snapshot = None,
          service_interval_months_snapshot = None\<rparr>]\<rparr>))"
    by (simp add: auto_create_customer_product_def Let_def COALESCE_def [of None]
          date_pli_def generate_scheduled_service_tasks_skip)
  with v2 show ?thesis by (rule conjI)
qed

theorem missing_product_creates_blank_snapshot_witness:
  "(\<exists>db'. auto_create_customer_product_v2
             (example_shop (example_product 24 6 (Some default_service_flow_config)))
             20103 ''cp-1'' (example_item ''p-gone'') = Some (Inr db')
       \<and> map service_flow_config_snapshot (customer_products db') = [None]
       \<and> map lifecycle_months_snapshot (customer_products db') = [None]
       \<and> scheduled_service_tasks db' = [])
   \<and> (\<exists>db'. auto_create_customer_product
             (example_shop (example_product 24 6 (Some default_service_flow_config)))
             20103 ''cp-1'' (example_item ''p-gone'') = Some (Inr db')
       \<and> map service_flow_config_snapshot (customer_products db') = [None]
       \<and> map lifecycle_months_snapshot (customer_products db') = [None]
       \<and> scheduled_service_tasks db' = [])"
  using missing_product_creates_blank_snapshot
    [of "example_shop (example_product 24 6 (Some default_service_flow_config))"
        "example_item ''p-gone''" 20103 "''cp-1''"]
  by (simp add: example_shop_def example_item_def COALESCE_def date_range_def)

text \<open>
  \<^bold>\<open>C8.\<close> The code at the input where it departs from the claim: when 999 numbers of the
  customer and month exist, the count plus one is 1000, and \<^verbatim>\<open>LPAD(..., 3, '0')\<close> cuts
  it to its first three characters. The generated number ends in 100 and is the number
  that the hundredth transaction already carries.
\<close>

theorem transaction_number_after_999:
  "transaction_no
     (on_transaction_generate_number
        (empty_database\<lparr>transactions := numbered_transactions 999\<rparr>) (2025, 1) new_transaction)
   = Some ''INV-202501-3F2A9C-100''
   \<and> transaction_no (numbered_transactions 999 ! 99) = Some ''INV-202501-3F2A9C-100''"
proof -
  have "transaction_no (numbered_transactions 999 ! 99) = Some ''INV-202501-3F2A9C-100''"
    using text_100 by (simp add: numbered_transactions_def nth_append)
  have none: "transaction_no new_transaction = None"
    by (simp add: new_transaction_def)
  have table: "transactions (empty_database\<lparr>transactions := numbered_transactions 999\<rparr>)
      = numbered_transactions 999"
    by simp
  have thousand: "int 999 + 1 = 1000"
    by simp
  have "transaction_no
     (generate_transaction_number
        (empty_database\<lparr>transactions := numbered_transactions 999\<rparr>) (2025, 1) new_transaction)
   = Some (''INV-202501-3F2A9C-'' @ ''100'')"
    unfolding generate_transaction_number_eq [OF example_prefix]
    by (simp only: table count_numbered_transactions thousand text_1000)
  with none have "transaction_no
     (on_transaction_generate_number
        (empty_database\<lparr>transactions := numbered_transactions 999\<rparr>) (2025, 1) new_transaction)
   = Some ''INV-202501-3F2A9C-100''"
    by (simp add: on_transaction_generate_number_def)
  with \<open>transaction_no (numbered_transactions 999 ! 99) = Some ''INV-202501-3F2A9C-100''\<close>
  show ?thesis by simp
qed

text \<open>
  \<^bold>\<open>C10.\<close> The preview generator is total, also on a product without a
  \<^verbatim>\<open>service_flow_config\<close> or without some of its phase records: for every product and
  every date it returns a list, it throws no exception and its loop ends. Without a
  lifecycle, or with one that is not above 0, the list is empty. With a lifecycle above
  0 the list is the nodes of the onboarding phase, then those of the
  retention phase, then those of the maturity phase, where a phase whose record is
  missing has no nodes and a phase whose record is present has the nodes that its
  record gives. So every node of the list belongs to a phase whose record is present,
  and the list is empty when the configuration is missing or holds none of the three
  records.
\<close>

theorem preview_total_on_missing_config:
  "\<exists>nodes. generateTimelineNodes formatDate product start = Some (Inr nodes)
     \<and> (\<forall>lifecycle. lifecycle_months product = Some lifecycle \<and> 0 < lifecycle \<longrightarrow>
          nodes = phase_nodes formatDate product lifecycle start onboarding_phase
                  @ phase_nodes formatDate product lifecycle start retention_phase
                  @ phase_nodes formatDate product lifecycle start maturity_phase)
     \<and> (\<forall>n \<in> set nodes. phase_record product (phase n) \<noteq> None)
     \<and> (service_flow_config product = None \<longrightarrow> nodes = [])
     \<and> ((\<forall>ph. phase_record product ph = None) \<longrightarrow> nodes = [])
     \<and> (lifecycle_months product = None \<longrightarrow> nodes = [])
     \<and> (\<forall>lifecycle. lifecycle_months product = Some lifecycle \<and> lifecycle \<le> 0 \<longrightarrow> nodes = [])"
proof -
  let ?nodes = "preview_nodes formatDate product start"
  have present: "\<forall>n \<in> set ?nodes. phase_record product (phase n) \<noteq> None"
    by (simp add: preview_nodes_phase_record)
  then have "(\<forall>ph. phase_record product ph = None) \<longrightarrow> ?nodes = []"
    by (cases ?nodes) auto
  moreover have "service_flow_config product = None \<longrightarrow> ?nodes = []"
    by (simp add: preview_nodes_no_config)
  moreover have "\<forall>lifecycle. lifecycle_months product = Some lifecycle \<and> 0 < lifecycle \<longrightarrow>
      ?nodes = phase_nodes formatDate product lifecycle start onboarding_phase
               @ phase_nodes formatDate product lifecycle start retention_phase
               @ phase_nodes formatDate product lifecycle start maturity_phase"
    by (simp add: preview_nodes_phase_nodes)
  moreover have "lifecycle_months product = None \<longrightarrow> ?nodes = []"
    and "\<forall>lifecycle. lifecycle_months product = Some lifecycle \<and> lifecycle \<le> 0 \<longrightarrow> ?nodes = []"
    by (simp_all add: preview_nodes_def)
  ultimately show ?thesis
    using present by (simp add: generateTimelineNodes_nodes)
qed

theorem preview_total_on_missing_config_witness:
  "generateTimelineNodes iso_date (example_product 12 6 None) 20103 = Some (Inr [])
   \<and> generateTimelineNodes iso_date (example_product 0 6 (Some default_service_flow_config))
       20103 = Some (Inr [])
   \<and> generateTimelineNodes iso_date (example_product 12 6 (Some maturity_only_config)) 20103
     = Some (Inr [\<lparr>month = 12, date = ''2026-01-15'', phase = maturity_phase,
                   action = label_renew, customMessage = None\<rparr>])
   \<and> generateTimelineNodes iso_date (example_product 12 6 (Some retention_maturity_config)) 20103
     = Some (Inr [\<lparr>month = 6, date = ''2025-07-15'', phase = retention_phase,
                   action = label_clean, customMessage = None\<rparr>,
                  \<lparr>month = 12, date = ''2026-01-15'', phase = maturity_phase,
                   action = ''Call for MA Renewal'', customMessage = None\<rparr>])"
proof -
  have months: "retention_months 6 12 6 = [6]"
    by (simp add: retention_months.simps)
  have dates: "iso_date (setMonth 20103 (getMonth 20103 + 6)) = ''2025-07-15''"
    "iso_date (setMonth 20103 (getMonth 20103 + 12)) = ''2026-01-15''"
    by code_simp+
  have lifecycle: "lifecycle_months (example_product 12 6 cfg) = Some 12 \<and> (0::int) < 12" for cfg
    by (simp add: example_product_def)
  from preview_total_on_missing_config [of iso_date "example_product 12 6 None" 20103]
  have "generateTimelineNodes iso_date (example_product 12 6 None) 20103 = Some (Inr [])"
    by (auto simp: example_product_def)
  moreover
  from preview_total_on_missing_config
         [of iso_date "example_product 0 6 (Some default_service_flow_config)" 20103]
  have "generateTimelineNodes iso_date (example_product 0 6 (Some default_service_flow_config))
          20103 = Some (Inr [])"
    by (auto simp: example_product_def)
  moreover
  from preview_total_on_missing_config
         [of iso_date "example_product 12 6 (Some maturity_only_config)" 20103]
    lifecycle [of "Some maturity_only_config"]
  have "\<exists>nodes. generateTimelineNodes iso_date
                   (example_product 12 6 (Some maturity_only_config)) 20103 = Some (Inr nodes)
      \<and> nodes = phase_nodes iso_date (example_product 12 6 (Some maturity_only_config)) 12 20103
                  onboarding_phase
                @ phase_nodes iso_date (example_product 12 6 (Some maturity_only_config)) 12 20103
                    retention_phase
                @ phase_nodes iso_date (example_product 12 6 (Some maturity_only_config)) 12 20103
                    maturity_phase"
    by blast
  then have "generateTimelineNodes iso_date (example_product 12 6 (Some maturity_only_config)) 20103
     = Some (Inr [\<lparr>month = 12, date = ''2026-01-15'', phase = maturity_phase,
                   action = label_renew, customMessage = None\<rparr>])"
    by (simp add: phase_nodes_def record_nodes_def phase_record_def example_product_def
          maturity_only_config_def or_default_def dates)
  moreover
  from preview_total_on_missing_config
         [of iso_date "example_product 12 6 (Some retention_maturity_config)" 20103]
    lifecycle [of "Some retention_maturity_config"]
  have "\<exists>nodes. generateTimelineNodes iso_date
                   (example_product 12 6 (Some retention_maturity_config)) 20103 = Some (Inr nodes)
      \<and> nodes = phase_nodes iso_date (example_product 12 6 (Some retention_maturity_config)) 12
                  20103 onboarding_phase
                @ phase_nodes iso_date (example_product 12 6 (Some retention_maturity_config)) 12
                    20103 retention_phase
                @ phase_nodes iso_date (example_product 12 6 (Some retention_maturity_config)) 12
                    20103 maturity_phase"
    by blast
  then have "generateTimelineNodes iso_date (example_product 12 6 (Some retention_maturity_config))
       20103
     = Some (Inr [\<lparr>month = 6, date = ''2025-07-15'', phase = retention_phase,
                   action = label_clean, customMessage = None\<rparr>,
                  \<lparr>month = 12, date = ''2026-01-15'', phase = maturity_phase,
                   action = ''Call for MA Renewal'', customMessage = None\<rparr>])"
    by (simp add: phase_nodes_def record_nodes_def phase_record_def example_product_def
          retention_maturity_config_def default_service_flow_config_def or_default_def
          months dates)
  ultimately show ?thesis by simp
qed

text \<open>
  \<^bold>\<open>C9\<close> is about \<^verbatim>\<open>calculateGrandTotal\<close> and the amounts of \<^verbatim>\<open>PaymentSection\<close>, which
  add, subtract, divide and round JavaScript numbers, that is binary floating-point
  values. They are not embedded here.
\<close>

end
